theory Spec2Isabelle
  imports Main
begin

section \<open>Errors and outcomes\<close>

text \<open>
  Go's \<open>error\<close> values. \<open>FetchError\<close> is the struct of the program; \<open>NotExist\<close> stands for
  an error for which \<open>os.IsNotExist\<close> answers true, and \<open>LibError\<close> for every other error
  handed back by the standard library (URL parsing, network, HTML, file system).
\<close>

datatype error = FetchError string | NotExist string | LibError string

definition MissingDownloadLinkErr :: error where
  "MissingDownloadLinkErr = FetchError ''no pdf download links found on page''"

definition TooManyDownloadLinksErr :: error where
  "TooManyDownloadLinksErr = FetchError ''too many pdf download links found on page''"

text \<open>The method \<open>Error()\<close>: the message of an error.\<close>

fun Error :: "error \<Rightarrow> string" where
  "Error (FetchError msg) = msg"
| "Error (NotExist name) = ''stat '' @ name @ '': no such file or directory''"
| "Error (LibError msg) = msg"

text \<open>
  A call either returns to its caller or ends the process through \<open>log.Fatal\<close>, with the
  message logged.
\<close>

datatype 'a outcome = Return 'a | LogFatal string

section \<open>The calls into \<open>net/url\<close>\<close>

text \<open>
  The fields of \<open>url.URL\<close> that the program and the resolution rules read. The standard
  library is not part of the repository: \<open>getFullUrl\<close> is modelled over any implementation
  of the three calls it makes, collected in the record \<open>urllib\<close>.
\<close>

record URL =
  Scheme :: string
  Opaque :: string
  Host :: string
  Path :: string
  ForceQuery :: bool
  RawQuery :: string
  Fragment :: string

record urllib =
  url_Parse :: "string \<Rightarrow> error + URL"
  ResolveReference :: "URL \<Rightarrow> URL \<Rightarrow> URL"
  url_String :: "URL \<Rightarrow> string"

text \<open>\<open>func (u *URL) Parse(ref string)\<close>: parse the reference, then resolve it against \<open>u\<close>.\<close>

definition URL_Parse :: "urllib \<Rightarrow> URL \<Rightarrow> string \<Rightarrow> error + URL" where
  "URL_Parse lib u ref =
     (case url_Parse lib ref of
        Inl err \<Rightarrow> Inl err
      | Inr refURL \<Rightarrow> Inr (ResolveReference lib u refURL))"

text \<open>\<open>getFullUrl\<close> (src/main.go, lines 68-91; the same text in every variant).\<close>

definition getFullUrl :: "urllib \<Rightarrow> string \<Rightarrow> string \<Rightarrow> error + string" where
  "getFullUrl lib baseUrl linkUrl =
     (case url_Parse lib linkUrl of
        Inl err \<Rightarrow> Inl err
      | Inr link \<Rightarrow>
          if Host link = [] \<or> Scheme link = [] then
            (case url_Parse lib baseUrl of
               Inl err \<Rightarrow> Inl err
             | Inr base \<Rightarrow>
                 (case URL_Parse lib base linkUrl of
                    Inl err \<Rightarrow> Inl err
                  | Inr full \<Rightarrow> Inr (url_String lib full)))
          else Inr linkUrl)"

section \<open>A reference implementation of the \<open>net/url\<close> calls\<close>

text \<open>
  A model of \<open>url.Parse\<close>, \<open>(*URL).ResolveReference\<close> and \<open>(*URL).String\<close> that follows
  the structure of the Go library and RFC 3986, sections 5.2 and 5.3, for URLs without
  user information and without percent-escapes. It instantiates \<open>urllib\<close> where a
  concrete library is needed.
\<close>

text \<open>\<open>split(s, c, cutc)\<close>: cut \<open>s\<close> at the first \<open>c\<close>.\<close>

fun split_at :: "char \<Rightarrow> bool \<Rightarrow> string \<Rightarrow> string \<times> string" where
  "split_at c cutc [] = ([], [])"
| "split_at c cutc (x # xs) =
     (if x = c then ([], if cutc then xs else x # xs)
      else (case split_at c cutc xs of (a, b) \<Rightarrow> (x # a, b)))"

text \<open>A character as the byte Go compares: \<open>'a' <= c && c <= 'z'\<close> and the like.\<close>

definition byte :: "char \<Rightarrow> nat" where
  "byte c = of_char c"

definition is_alpha :: "char \<Rightarrow> bool" where
  "is_alpha c \<longleftrightarrow> (97 \<le> byte c \<and> byte c \<le> 122) \<or> (65 \<le> byte c \<and> byte c \<le> 90)"

definition is_digit :: "char \<Rightarrow> bool" where
  "is_digit c \<longleftrightarrow> 48 \<le> byte c \<and> byte c \<le> 57"

definition to_lower :: "char \<Rightarrow> char" where
  "to_lower c = (if 65 \<le> byte c \<and> byte c \<le> 90 then char_of (byte c + 32) else c)"

text \<open>
  \<open>getscheme\<close>: the loop over the bytes of the URL, with the bytes read so far in
  \<open>seen\<close> (reversed). \<open>None\<close> is the error "missing protocol scheme".
\<close>

fun getscheme_loop :: "string \<Rightarrow> string \<Rightarrow> string \<Rightarrow> (string \<times> string) option" where
  "getscheme_loop rawurl seen [] = Some ([], rawurl)"
| "getscheme_loop rawurl seen (c # cs) =
     (if is_alpha c then getscheme_loop rawurl (c # seen) cs
      else if is_digit c \<or> c = CHR ''+'' \<or> c = CHR ''-'' \<or> c = CHR ''.'' then
        (if seen = [] then Some ([], rawurl) else getscheme_loop rawurl (c # seen) cs)
      else if c = CHR '':'' then
        (if seen = [] then None else Some (rev seen, cs))
      else Some ([], rawurl))"

definition getscheme :: "string \<Rightarrow> (string \<times> string) option" where
  "getscheme rawurl = getscheme_loop rawurl [] rawurl"

definition HasPrefix :: "string \<Rightarrow> string \<Rightarrow> bool" where
  "HasPrefix s p \<longleftrightarrow> take (length p) s = p"

definition HasSuffix :: "string \<Rightarrow> string \<Rightarrow> bool" where
  "HasSuffix s suffix \<longleftrightarrow> length suffix \<le> length s \<and> drop (length s - length suffix) s = suffix"

text \<open>\<open>strings.Contains\<close>: some suffix of \<open>s\<close> starts with \<open>substr\<close>.\<close>

fun Contains :: "string \<Rightarrow> string \<Rightarrow> bool" where
  "Contains [] substr = (substr = [])"
| "Contains (x # xs) substr = (HasPrefix (x # xs) substr \<or> Contains xs substr)"

declare Contains.simps [simp del]

definition first_segment_has_colon :: "string \<Rightarrow> bool" where
  "first_segment_has_colon rest \<longleftrightarrow> CHR '':'' \<in> set (takeWhile (\<lambda>c. c \<noteq> CHR ''/'') rest)"

definition parse_nofrag :: "string \<Rightarrow> error + URL" where
  "parse_nofrag rawurl =
     (if rawurl = ''*'' then
        Inr \<lparr>Scheme = [], Opaque = [], Host = [], Path = ''*'', ForceQuery = False,
             RawQuery = [], Fragment = []\<rparr>
      else case getscheme rawurl of
        None \<Rightarrow> Inl (LibError ''missing protocol scheme'')
      | Some (scheme0, rest0) \<Rightarrow>
          let scheme = map to_lower scheme0;
              force = (rest0 \<noteq> [] \<and> last rest0 = CHR ''?'' \<and> count_list rest0 (CHR ''?'') = 1);
              rest1 = (if force then butlast rest0 else fst (split_at (CHR ''?'') True rest0));
              query = (if force then [] else snd (split_at (CHR ''?'') True rest0))
          in
          if \<not> HasPrefix rest1 ''/'' \<and> scheme \<noteq> [] then
            Inr \<lparr>Scheme = scheme, Opaque = rest1, Host = [], Path = [], ForceQuery = force,
                 RawQuery = query, Fragment = []\<rparr>
          else if \<not> HasPrefix rest1 ''/'' \<and> first_segment_has_colon rest1 then
            Inl (LibError ''first path segment in URL cannot contain colon'')
          else if HasPrefix rest1 ''//'' \<and> (scheme \<noteq> [] \<or> \<not> HasPrefix rest1 ''///'') then
            (case split_at (CHR ''/'') False (drop 2 rest1) of
               (authority, rest2) \<Rightarrow>
                 Inr \<lparr>Scheme = scheme, Opaque = [], Host = authority, Path = rest2,
                      ForceQuery = force, RawQuery = query, Fragment = []\<rparr>)
          else
            Inr \<lparr>Scheme = scheme, Opaque = [], Host = [], Path = rest1, ForceQuery = force,
                 RawQuery = query, Fragment = []\<rparr>)"

definition ref_Parse :: "string \<Rightarrow> error + URL" where
  "ref_Parse rawurl =
     (case split_at (CHR ''#'') True rawurl of
        (u, frag) \<Rightarrow>
          (case parse_nofrag u of
             Inl err \<Rightarrow> Inl err
           | Inr url \<Rightarrow> Inr (url\<lparr>Fragment := frag\<rparr>)))"

text \<open>\<open>strings.Split(s, sep)\<close> for a one-byte separator: never empty, \<open>[[]]\<close> on the empty string.\<close>

fun Split :: "string \<Rightarrow> char \<Rightarrow> string list" where
  "Split [] sep = [[]]"
| "Split (x # xs) sep =
     (if x = sep then [] # Split xs sep
      else (case Split xs sep of [] \<Rightarrow> [[x]] | y # ys \<Rightarrow> (x # y) # ys))"

text \<open>\<open>strings.Join(elems, sep)\<close> for a one-byte separator.\<close>

fun Join :: "string list \<Rightarrow> char \<Rightarrow> string" where
  "Join [] sep = []"
| "Join [x] sep = x"
| "Join (x # y # ys) sep = x @ sep # Join (y # ys) sep"

text \<open>\<open>resolvePath\<close>: merge the reference into the base path, then drop the dot segments.\<close>

fun drop_dots :: "string list \<Rightarrow> string list \<Rightarrow> string list" where
  "drop_dots dst [] = dst"
| "drop_dots dst (elem # src) =
     (if elem = ''.'' then drop_dots dst src
      else if elem = ''..'' then drop_dots (butlast dst) src
      else drop_dots (dst @ [elem]) src)"

definition trim_slash :: "string \<Rightarrow> string" where
  "trim_slash s = (if HasPrefix s ''/'' then drop 1 s else s)"

definition last_slash_prefix :: "string \<Rightarrow> string" where
  "last_slash_prefix base = rev (dropWhile (\<lambda>c. c \<noteq> CHR ''/'') (rev base))"

definition resolvePath :: "string \<Rightarrow> string \<Rightarrow> string" where
  "resolvePath base ref =
     (let full = (if ref = [] then base
                  else if hd ref \<noteq> CHR ''/'' then last_slash_prefix base @ ref
                  else ref)
      in if full = [] then []
         else let src = Split full (CHR ''/'');
                  dst = drop_dots [] src;
                  dst' = (if last src = ''.'' \<or> last src = ''..'' then dst @ [[]] else dst)
              in CHR ''/'' # trim_slash (Join dst' (CHR ''/'')))"

definition ref_ResolveReference :: "URL \<Rightarrow> URL \<Rightarrow> URL" where
  "ref_ResolveReference u ref =
     (let url = (if Scheme ref = [] then ref\<lparr>Scheme := Scheme u\<rparr> else ref) in
      if Scheme ref \<noteq> [] \<or> Host ref \<noteq> [] then url\<lparr>Path := resolvePath (Path ref) []\<rparr>
      else if Opaque ref \<noteq> [] then url\<lparr>Host := [], Path := []\<rparr>
      else
        let url1 = (if Path ref = [] \<and> \<not> ForceQuery ref \<and> RawQuery ref = [] then
                      (if Fragment ref = [] then url\<lparr>RawQuery := RawQuery u, Fragment := Fragment u\<rparr>
                       else url\<lparr>RawQuery := RawQuery u\<rparr>)
                    else url)
        in if Path ref = [] \<and> Opaque u \<noteq> [] then url1\<lparr>Opaque := Opaque u, Host := [], Path := []\<rparr>
           else url1\<lparr>Host := Host u, Path := resolvePath (Path u) (Path ref)\<rparr>)"

definition ref_String :: "URL \<Rightarrow> string" where
  "ref_String u =
     (let s1 = (if Scheme u \<noteq> [] then Scheme u @ '':'' else []);
          s2 = (if Opaque u \<noteq> [] then s1 @ Opaque u
                else
                  let a = (if Scheme u \<noteq> [] \<or> Host u \<noteq> [] then
                             s1 @ (if Host u \<noteq> [] \<or> Path u \<noteq> [] then ''//'' else []) @ Host u
                           else s1);
                      b = (if Path u \<noteq> [] \<and> hd (Path u) \<noteq> CHR ''/'' \<and> Host u \<noteq> [] then a @ ''/''
                           else a);
                      c = (if b = [] \<and> first_segment_has_colon (Path u) then ''./'' else b)
                  in c @ Path u);
          s3 = (if ForceQuery u \<or> RawQuery u \<noteq> [] then s2 @ ''?'' @ RawQuery u else s2)
      in if Fragment u \<noteq> [] then s3 @ ''#'' @ Fragment u else s3)"

definition ref_urllib :: urllib where
  "ref_urllib = \<lparr>url_Parse = ref_Parse, ResolveReference = ref_ResolveReference,
                 url_String = ref_String\<rparr>"

section \<open>HTML documents and the \<open>scrape\<close> calls\<close>

text \<open>
  A parsed document as \<open>golang.org/x/net/html\<close> builds it: a tree of nodes with a type,
  an atom for the tag, the tag or text in \<open>Data\<close>, the attributes as key-value pairs in
  document order and the children from first to last.
\<close>

datatype NodeType = ErrorNode | TextNode | DocumentNode | ElementNode | CommentNode | DoctypeNode

datatype atom = atom_A | atom_B | atom_H3 | atom_other nat

datatype Node =
  Node (Type: NodeType) (DataAtom: atom) (Data: string) (Attr: "(string \<times> string) list")
    (Children: "Node list")

text \<open>
  A \<open>*html.Node\<close> is a place in a tree: the node together with the chain of its ancestors,
  the parent first. \<open>n.Parent\<close> is \<open>nil\<close> exactly when the chain is empty.
\<close>

type_synonym NodePtr = "Node list \<times> Node"

type_synonym Matcher = "NodePtr \<Rightarrow> bool"

definition Parent :: "NodePtr \<Rightarrow> NodePtr option" where
  "Parent n = (case fst n of [] \<Rightarrow> None | p # ps \<Rightarrow> Some (ps, p))"

text \<open>\<open>scrape.Attr\<close>: the value of the first attribute with the key, or the empty string.\<close>

fun attr_lookup :: "(string \<times> string) list \<Rightarrow> string \<Rightarrow> string" where
  "attr_lookup [] key = []"
| "attr_lookup ((k, v) # as) key = (if k = key then v else attr_lookup as key)"

definition scrape_Attr :: "NodePtr \<Rightarrow> string \<Rightarrow> string" where
  "scrape_Attr n key = attr_lookup (Attr (snd n)) key"

text \<open>
  \<open>scrape.FindAll\<close> is \<open>findAllInternal\<close> with \<open>searchNested = false\<close>: depth first, in
  document order, and the subtree of a matched node is not searched.
\<close>

fun findAllInternal :: "Node list \<Rightarrow> Node \<Rightarrow> Matcher \<Rightarrow> bool \<Rightarrow> NodePtr list" where
  "findAllInternal anc (Node t a d at cs) matcher searchNested =
     (if matcher (anc, Node t a d at cs) \<and> \<not> searchNested then [(anc, Node t a d at cs)]
      else (if matcher (anc, Node t a d at cs) then [(anc, Node t a d at cs)] else []) @
           concat (map (\<lambda>c. findAllInternal (Node t a d at cs # anc) c matcher searchNested) cs))"

definition scrape_FindAll :: "NodePtr \<Rightarrow> Matcher \<Rightarrow> NodePtr list" where
  "scrape_FindAll node matcher = findAllInternal (fst node) (snd node) matcher False"

text \<open>\<open>scrape.Find\<close>: the first match of a depth-first search, or \<open>ok = false\<close>.\<close>

fun first_ok :: "'a option list \<Rightarrow> 'a option" where
  "first_ok [] = None"
| "first_ok (None # xs) = first_ok xs"
| "first_ok (Some x # xs) = Some x"

fun find_node :: "Node list \<Rightarrow> Node \<Rightarrow> Matcher \<Rightarrow> NodePtr option" where
  "find_node anc (Node t a d at cs) matcher =
     (if matcher (anc, Node t a d at cs) then Some (anc, Node t a d at cs)
      else first_ok (map (\<lambda>c. find_node (Node t a d at cs # anc) c matcher) cs))"

definition scrape_Find :: "NodePtr \<Rightarrow> Matcher \<Rightarrow> NodePtr option" where
  "scrape_Find node matcher = find_node (fst node) (snd node) matcher"

text \<open>
  \<open>strings.TrimSpace\<close> is \<open>strings.TrimFunc(s, unicode.IsSpace)\<close>: it cuts from both ends
  the code points with the Unicode property White_Space. A Go string is a sequence of
  bytes, read as UTF-8: the white space are the six ASCII characters from U+0009 to U+000D
  and U+0020, and U+0085, U+00A0, U+1680, U+2000 to U+200A, U+2028, U+2029, U+202F, U+205F
  and U+3000 in their encodings of two and three bytes. Bytes that are not the encoding of
  a code point decode to U+FFFD, which is not white space, so the cutting stops there.
\<close>

definition white_space :: "string list" where
  "white_space =
     [[CHR 0x09], [CHR 0x0A], [CHR 0x0B], [CHR 0x0C], [CHR 0x0D], [CHR 0x20],
      [CHR 0xC2, CHR 0x85], [CHR 0xC2, CHR 0xA0], [CHR 0xE1, CHR 0x9A, CHR 0x80],
      [CHR 0xE2, CHR 0x80, CHR 0x80], [CHR 0xE2, CHR 0x80, CHR 0x81],
      [CHR 0xE2, CHR 0x80, CHR 0x82], [CHR 0xE2, CHR 0x80, CHR 0x83],
      [CHR 0xE2, CHR 0x80, CHR 0x84], [CHR 0xE2, CHR 0x80, CHR 0x85],
      [CHR 0xE2, CHR 0x80, CHR 0x86], [CHR 0xE2, CHR 0x80, CHR 0x87],
      [CHR 0xE2, CHR 0x80, CHR 0x88], [CHR 0xE2, CHR 0x80, CHR 0x89],
      [CHR 0xE2, CHR 0x80, CHR 0x8A], [CHR 0xE2, CHR 0x80, CHR 0xA8],
      [CHR 0xE2, CHR 0x80, CHR 0xA9], [CHR 0xE2, CHR 0x80, CHR 0xAF],
      [CHR 0xE2, CHR 0x81, CHR 0x9F], [CHR 0xE3, CHR 0x80, CHR 0x80]]"

text \<open>
  \<open>TrimLeftFunc\<close> for a predicate given by the encodings it accepts: the leading code
  points among \<open>ps\<close> are cut off, one after the other.
\<close>

fun trim_prefixes :: "string list \<Rightarrow> string \<Rightarrow> string" where
  "trim_prefixes ps [] = []"
| "trim_prefixes ps (c # cs) =
     (case find (HasPrefix (c # cs)) ps of
        None \<Rightarrow> c # cs
      | Some p \<Rightarrow> trim_prefixes ps (drop (length p - 1) cs))"

text \<open>
  \<open>TrimSpace\<close>: first from the left, then from the right, which is from the left of the
  reversed string with the encodings reversed.
\<close>

definition TrimSpace :: "string \<Rightarrow> string" where
  "TrimSpace s =
     rev (trim_prefixes (map rev white_space) (rev (trim_prefixes white_space s)))"

text \<open>
  \<open>scrape.Text\<close>: the text nodes below the node, each trimmed of white space, the empty
  ones dropped, joined by one blank.
\<close>

definition scrape_Text :: "NodePtr \<Rightarrow> string" where
  "scrape_Text node =
     Join (filter (\<lambda>s. s \<noteq> [])
             (map (\<lambda>n. TrimSpace (Data (snd n)))
                (scrape_FindAll node (\<lambda>n. Type (snd n) = TextNode))))
       (CHR '' '')"

section \<open>The network, the file system and the state of a run\<close>

text \<open>
  An HTTP response as the program reads it: the bytes the body delivers and the error, if
  any, that the body raises after them. \<open>http.Get\<close> and \<open>html.Parse\<close> belong to the
  environment: a run is modelled over any answers they give, one answer per URL.
\<close>

record response =
  Body :: string
  BodyErr :: "error option"

record net =
  http_Get :: "string \<Rightarrow> error + response"
  html_Parse :: "response \<Rightarrow> error + Node"

text \<open>
  What a run changes: the regular files with their contents, the directories, and the
  GET requests issued so far, oldest first.
\<close>

record world =
  files :: "string \<rightharpoonup> string"
  dirs :: "string set"
  requests :: "string list"

definition sent :: "world \<Rightarrow> string \<Rightarrow> world" where
  "sent w url = w\<lparr>requests := requests w @ [url]\<rparr>"

text \<open>
  Failures of the operating system that the state does not explain (a directory that may
  not be searched, a full disk), as messages per path. None of them is a does-not-exist
  error.
\<close>

record osenv =
  stat_fault :: "string \<rightharpoonup> string"
  create_fault :: "string \<rightharpoonup> string"
  mkdir_fault :: "string \<rightharpoonup> string"

text \<open>\<open>os.Stat\<close>, reduced to its error, and \<open>os.IsNotExist\<close>.\<close>

definition os_Stat :: "osenv \<Rightarrow> world \<Rightarrow> string \<Rightarrow> error option" where
  "os_Stat env w name =
     (case stat_fault env name of
        Some msg \<Rightarrow> Some (LibError msg)
      | None \<Rightarrow> if files w name \<noteq> None \<or> name \<in> dirs w then None else Some (NotExist name))"

fun os_IsNotExist :: "error option \<Rightarrow> bool" where
  "os_IsNotExist (Some (NotExist name)) = True"
| "os_IsNotExist err = False"

text \<open>\<open>os.Create\<close>: the file is created empty, or truncated when it exists.\<close>

definition os_Create :: "osenv \<Rightarrow> world \<Rightarrow> string \<Rightarrow> error option \<times> world" where
  "os_Create env w name =
     (case create_fault env name of
        Some msg \<Rightarrow> (Some (LibError msg), w)
      | None \<Rightarrow>
          if name \<in> dirs w then (Some (LibError ''is a directory''), w)
          else (None, w\<lparr>files := (files w)(name \<mapsto> [])\<rparr>))"

text \<open>
  \<open>io.Copy(out, resp.Body)\<close>: the bytes the body delivers reach the file; the error the
  body raises after them is the error of the copy.
\<close>

definition io_Copy :: "world \<Rightarrow> string \<Rightarrow> response \<Rightarrow> error option \<times> world" where
  "io_Copy w name resp = (BodyErr resp, w\<lparr>files := (files w)(name \<mapsto> Body resp)\<rparr>)"

section \<open>The download-URL resolver\<close>

text \<open>\<open>getDownloadUrl\<close> of src/main.go (lines 122-148).\<close>

definition getDownloadUrl ::
  "urllib \<Rightarrow> net \<Rightarrow> world \<Rightarrow> string \<Rightarrow> Matcher \<Rightarrow> (string \<times> error option) \<times> world" where
  "getDownloadUrl lib nt w pageUrl matcher =
     (case http_Get nt pageUrl of
        Inl err \<Rightarrow> (([], Some err), sent w pageUrl)
      | Inr resp \<Rightarrow>
          (case html_Parse nt resp of
             Inl err \<Rightarrow> (([], Some err), sent w pageUrl)
           | Inr root \<Rightarrow>
               let pageNodes = scrape_FindAll ([], root) matcher in
               if length pageNodes < 1 then (([], Some MissingDownloadLinkErr), sent w pageUrl)
               else
                 (case getFullUrl lib pageUrl (scrape_Attr (pageNodes ! 0) ''href'') of
                    Inl err \<Rightarrow> (([], Some err), sent w pageUrl)
                  | Inr fileUrl \<Rightarrow>
                      if length pageNodes > 1 then
                        ((fileUrl, Some TooManyDownloadLinksErr), sent w pageUrl)
                      else ((fileUrl, None), sent w pageUrl))))"

text \<open>
  The earliest variant (src/unnamed/part_001, lines 110-145) takes no matcher: it builds
  the one for anchors under a parent of class \<open>file\<close> itself.
\<close>

definition fileMatcher :: Matcher where
  "fileMatcher n =
     (if DataAtom (snd n) = atom_A \<and> Parent n \<noteq> None then
        scrape_Attr (the (Parent n)) ''class'' = ''file''
      else False)"


text \<open>
  The variant with the gated domain (src/unnamed/part_000, lines 122-177). The regular
  expression \<open>^All [\d]+ versions$\<close> matches \<open>All\<close>, a blank, one or more ASCII digits and
  \<open> versions\<close>, with nothing before or after.
\<close>

definition allVersionsRegex_MatchString :: "string \<Rightarrow> bool" where
  "allVersionsRegex_MatchString s \<longleftrightarrow>
     take 4 s = ''All '' \<and> takeWhile is_digit (drop 4 s) \<noteq> [] \<and>
     dropWhile is_digit (drop 4 s) = '' versions''"

definition allVersionsMatcher :: Matcher where
  "allVersionsMatcher n =
     (if DataAtom (snd n) = atom_A then allVersionsRegex_MatchString (scrape_Text n) else False)"

definition urlMatcher :: Matcher where
  "urlMatcher n =
     (if DataAtom (snd n) = atom_A \<and> Parent n \<noteq> None then
        (let href = scrape_Attr n ''href'' in
         HasSuffix href ''.pdf'' \<and> scrape_Attr (the (Parent n)) ''class'' = ''gs_or_ggsm'' \<and>
         \<not> Contains href ''www.ieee-security.org'')
      else False)"

text \<open>
  The matcher that the driver of that variant passes for a search result (lines 418-425):
  an anchor to a PDF under a parent of class \<open>gs_or_ggsm\<close>.
\<close>

definition scholarMatcher :: Matcher where
  "scholarMatcher n =
     (if DataAtom (snd n) = atom_A \<and> Parent n \<noteq> None then
        (let href = scrape_Attr n ''href'' in
         HasSuffix href ''.pdf'' \<and> scrape_Attr (the (Parent n)) ''class'' = ''gs_or_ggsm'')
      else False)"

text \<open>
  The function calls itself, and nothing in its text bounds the depth: the first
  argument is the number of nested calls still allowed, and \<open>None\<close> says that they did
  not suffice. \<open>log.Fatalf\<close> ends the process.
\<close>

fun getDownloadUrl_gated ::
  "nat \<Rightarrow> urllib \<Rightarrow> net \<Rightarrow> world \<Rightarrow> string \<Rightarrow> Matcher \<Rightarrow>
     ((string \<times> error option) outcome \<times> world) option" where
  "getDownloadUrl_gated 0 lib nt w pageUrl matcher = None"
| "getDownloadUrl_gated (Suc fuel) lib nt w pageUrl matcher =
     (case http_Get nt pageUrl of
        Inl err \<Rightarrow> Some (Return ([], Some err), sent w pageUrl)
      | Inr resp \<Rightarrow>
          (case html_Parse nt resp of
             Inl err \<Rightarrow> Some (Return ([], Some err), sent w pageUrl)
           | Inr root \<Rightarrow>
               let pageNodes = scrape_FindAll ([], root) matcher in
               if length pageNodes < 1 then
                 Some (Return ([], Some MissingDownloadLinkErr), sent w pageUrl)
               else
                 (case getFullUrl lib pageUrl (scrape_Attr (pageNodes ! 0) ''href'') of
                    Inl err \<Rightarrow> Some (Return ([], Some err), sent w pageUrl)
                  | Inr fileUrl \<Rightarrow>
                      if length pageNodes > 1 then
                        Some (Return (fileUrl, Some TooManyDownloadLinksErr), sent w pageUrl)
                      else if Contains fileUrl ''www.ieee-security.org'' then
                        (case scrape_Find ([], root) allVersionsMatcher of
                           None \<Rightarrow>
                             Some (LogFatal (''no version link found for: '' @ fileUrl),
                                   sent w pageUrl)
                         | Some versionLink \<Rightarrow>
                             (case getFullUrl lib pageUrl (scrape_Attr versionLink ''href'') of
                                Inl err \<Rightarrow> Some (Return ([], Some err), sent w pageUrl)
                              | Inr versionUrl \<Rightarrow>
                                  getDownloadUrl_gated fuel lib nt (sent w pageUrl) versionUrl
                                    urlMatcher))
                      else Some (Return (fileUrl, None), sent w pageUrl))))"

section \<open>The file downloader\<close>

text \<open>
  \<open>downloadFile\<close> (src/main.go, lines 93-120; the same text in every variant). The
  result is the error returned, \<open>None\<close> for \<open>nil\<close>, and the state it leaves.
\<close>

definition downloadFile ::
  "osenv \<Rightarrow> net \<Rightarrow> world \<Rightarrow> string \<Rightarrow> string \<Rightarrow> error option \<times> world" where
  "downloadFile env nt w url filepath =
     (if \<not> os_IsNotExist (os_Stat env w filepath) then (None, w)
      else
        (case os_Create env w filepath of
           (Some err, w1) \<Rightarrow> (Some err, w1)
         | (None, w1) \<Rightarrow>
             (case http_Get nt url of
                Inl err \<Rightarrow> (Some err, sent w1 url)
              | Inr resp \<Rightarrow>
                  (case io_Copy (sent w1 url) filepath resp of
                     (Some err, w2) \<Rightarrow> (Some err, w2)
                   | (None, w2) \<Rightarrow> (None, w2)))))"

section \<open>The driver: directories and file names\<close>

record Conference =
  Name :: string
  URL :: string
  Year :: int

text \<open>\<open>strconv.Itoa\<close>: the decimal digits, with a minus sign for a negative number.\<close>

fun decimal :: "nat \<Rightarrow> string" where
  "decimal n = (if n < 10 then [char_of (48 + n)] else decimal (n div 10) @ [char_of (48 + n mod 10)])"

declare decimal.simps [simp del]

definition Itoa :: "int \<Rightarrow> string" where
  "Itoa i = (if i < 0 then CHR ''-'' # decimal (nat (- i)) else decimal (nat i))"

text \<open>
  \<open>path.Clean\<close>, on the elements between the slashes: empty elements and \<open>.\<close> are dropped,
  \<open>..\<close> removes the element before it, is dropped at the root and kept at the start of a
  path that is not rooted. The elements kept so far are held last first.
\<close>

definition clean_step :: "bool \<Rightarrow> string list \<Rightarrow> string \<Rightarrow> string list" where
  "clean_step rooted out elem =
     (if elem = [] \<or> elem = ''.'' then out
      else if elem = ''..'' then
        (case out of
           [] \<Rightarrow> if rooted then [] else [''..'']
         | x # xs \<Rightarrow> if x = ''..'' then ''..'' # out else xs)
      else elem # out)"

definition clean_string :: "bool \<Rightarrow> string list \<Rightarrow> string" where
  "clean_string rooted out =
     (if rooted then CHR ''/'' # Join (rev out) (CHR ''/'')
      else if out = [] then ''.''
      else Join (rev out) (CHR ''/''))"

definition path_Clean :: "string \<Rightarrow> string" where
  "path_Clean path =
     (if path = [] then ''.''
      else clean_string (hd path = CHR ''/'')
             (foldl (clean_step (hd path = CHR ''/'')) [] (Split path (CHR ''/''))))"

text \<open>
  What the elements kept by \<open>path.Clean\<close> look like: none is empty, \<open>.\<close> or contains a
  slash, and \<open>..\<close> occurs only in a path that is not rooted, below nothing but \<open>..\<close>.
\<close>

fun clean_stack :: "bool \<Rightarrow> string list \<Rightarrow> bool" where
  "clean_stack rooted [] = True"
| "clean_stack rooted (e # out) =
     (e \<noteq> [] \<and> e \<noteq> ''.'' \<and> CHR ''/'' \<notin> set e \<and>
      (e = ''..'' \<longrightarrow> \<not> rooted \<and> (\<forall>x \<in> set out. x = ''..'')) \<and>
      clean_stack rooted out)"

text \<open>\<open>path.Join\<close>: the non-empty elements, joined by slashes and cleaned.\<close>

definition path_Join :: "string list \<Rightarrow> string" where
  "path_Join elem =
     (if concat elem = [] then []
      else path_Clean (Join (filter (\<lambda>e. e \<noteq> []) elem) (CHR ''/'')))"

text \<open>
  An element of a path that names something below a directory: not empty, not \<open>.\<close> or
  \<open>..\<close>, and without a slash.
\<close>

definition proper_segment :: "string \<Rightarrow> bool" where
  "proper_segment s \<longleftrightarrow> s \<noteq> [] \<and> s \<noteq> ''.'' \<and> s \<noteq> ''..'' \<and> CHR ''/'' \<notin> set s"

text \<open>
  \<open>os.MkdirAll\<close>: the directory and every missing parent, named by the prefixes of the
  path that end before a slash or at its end. It fails where a prefix is a regular file.
\<close>

definition path_prefixes :: "string \<Rightarrow> string list" where
  "path_prefixes path =
     filter (\<lambda>p. p \<noteq> [])
       (map (\<lambda>k. Join (take k (Split path (CHR ''/''))) (CHR ''/''))
          [1 ..< Suc (length (Split path (CHR ''/'')))])"

definition os_MkdirAll :: "osenv \<Rightarrow> world \<Rightarrow> string \<Rightarrow> error option \<times> world" where
  "os_MkdirAll env w path =
     (case mkdir_fault env path of
        Some msg \<Rightarrow> (Some (LibError msg), w)
      | None \<Rightarrow>
          if list_ex (\<lambda>p. files w p \<noteq> None) (path_prefixes path) then
            (Some (LibError ''not a directory''), w)
          else (None, w\<lparr>dirs := dirs w \<union> set (path_prefixes path)\<rparr>))"

text \<open>\<open>createConfDirectory\<close> (src/main.go, lines 56-65).\<close>

definition createConfDirectory ::
  "osenv \<Rightarrow> world \<Rightarrow> string \<Rightarrow> Conference \<Rightarrow> (error + string) \<times> world" where
  "createConfDirectory env w outputDirectory conf =
     (let confDirectory = path_Join [outputDirectory, Name conf, Itoa (Year conf)] in
      if os_IsNotExist (os_Stat env w confDirectory) then
        (case os_MkdirAll env w confDirectory of
           (Some err, w1) \<Rightarrow> (Inl err, w1)
         | (None, w1) \<Rightarrow> (Inr confDirectory, w1))
      else (Inr confDirectory, w))"

text \<open>\<open>getLinks\<close> (src/main.go, lines 150-173): a link that does not resolve ends the process.\<close>

fun resolve_all :: "urllib \<Rightarrow> string \<Rightarrow> NodePtr list \<Rightarrow> string list \<Rightarrow> string list outcome" where
  "resolve_all lib pageUrl [] pages = Return pages"
| "resolve_all lib pageUrl (page # pageNodes) pages =
     (case getFullUrl lib pageUrl (scrape_Attr page ''href'') of
        Inl err \<Rightarrow> LogFatal (Error err)
      | Inr url \<Rightarrow> resolve_all lib pageUrl pageNodes (pages @ [url]))"

definition getLinks ::
  "urllib \<Rightarrow> net \<Rightarrow> world \<Rightarrow> string \<Rightarrow> Matcher \<Rightarrow> (error + string list) outcome \<times> world" where
  "getLinks lib nt w pageUrl matcher =
     (case http_Get nt pageUrl of
        Inl err \<Rightarrow> (Return (Inl err), sent w pageUrl)
      | Inr resp \<Rightarrow>
          (case html_Parse nt resp of
             Inl err \<Rightarrow> (Return (Inl err), sent w pageUrl)
           | Inr root \<Rightarrow>
               (case resolve_all lib pageUrl (scrape_FindAll ([], root) matcher) [] of
                  LogFatal msg \<Rightarrow> (LogFatal msg, sent w pageUrl)
                | Return pages \<Rightarrow> (Return (Inr pages), sent w pageUrl))))"

text \<open>
  The matchers of \<open>main\<close> in src/main.go: the anchors to the pages of the papers on a
  listing of USENIX (lines 209-215); the anchors whose text is \<open>Paper\<close> (lines 254-260 and
  289-295) and the anchors under a heading \<open>h3\<close> (lines 276-282 and 314-320) of NDSS. The
  matcher for the download link on a page of USENIX (lines 232-238) is \<open>fileMatcher\<close>.
\<close>

definition paperMatcher :: Matcher where
  "paperMatcher n =
     (if DataAtom (snd n) = atom_A \<and> Parent n \<noteq> None \<and> Parent (the (Parent n)) \<noteq> None then
        Contains (scrape_Attr (the (Parent (the (Parent n)))) ''class'') ''node-paper''
      else False)"

definition paperTextMatcher :: Matcher where
  "paperTextMatcher n = (if DataAtom (snd n) = atom_A then scrape_Text n = ''Paper'' else False)"

definition headingMatcher :: Matcher where
  "headingMatcher n =
     (if DataAtom (snd n) = atom_A \<and> Parent n \<noteq> None then
        DataAtom (snd (the (Parent n))) = atom_H3
      else False)"

text \<open>
  The destination of a download (lines 241-242, and the same two lines in every loop):
  the directory of the conference joined with the text after the last slash of the
  download URL.
\<close>

definition paperFilepath :: "string \<Rightarrow> string \<Rightarrow> string" where
  "paperFilepath confDirectory downloadUrl =
     (let splitUrl = Split downloadUrl (CHR ''/'')
      in path_Join [confDirectory, splitUrl ! (length splitUrl - 1)])"

text \<open>
  The loop over the pages of the papers (lines 230-244 in the case \<open>"USENIX"\<close>, lines
  288-311 in the case \<open>"NDSS"\<close>: the same text but for the matcher of the download link,
  which is an argument here). For a paper, a missing download link skips it
  (\<open>continue\<close>), too many links are logged and the first is taken, any other error ends
  the process; the error of \<open>downloadFile\<close> is dropped; \<open>time.Sleep\<close> changes nothing here.
\<close>

definition main_paper ::
  "urllib \<Rightarrow> osenv \<Rightarrow> net \<Rightarrow> string \<Rightarrow> Matcher \<Rightarrow> world \<Rightarrow> string \<Rightarrow> unit outcome \<times> world" where
  "main_paper lib env nt confDirectory matcher w p =
     (case getDownloadUrl lib nt w p matcher of
        ((downloadUrl, err), w1) \<Rightarrow>
          if err \<noteq> None \<and> the err = MissingDownloadLinkErr then (Return (), w1)
          else if err \<noteq> None \<and> the err \<noteq> TooManyDownloadLinksErr then
            (LogFatal (Error (the err)), w1)
          else
            (Return (),
             snd (downloadFile env nt w1 downloadUrl (paperFilepath confDirectory downloadUrl))))"

fun main_papers ::
  "urllib \<Rightarrow> osenv \<Rightarrow> net \<Rightarrow> string \<Rightarrow> Matcher \<Rightarrow> world \<Rightarrow> string list \<Rightarrow> unit outcome \<times> world" where
  "main_papers lib env nt confDirectory matcher w [] = (Return (), w)"
| "main_papers lib env nt confDirectory matcher w (p # pages) =
     (case main_paper lib env nt confDirectory matcher w p of
        (LogFatal msg, w1) \<Rightarrow> (LogFatal msg, w1)
      | (Return u, w1) \<Rightarrow> main_papers lib env nt confDirectory matcher w1 pages)"

text \<open>
  The loop over links that are downloaded as they are listed (lines 267-273 and 324-330
  in the case \<open>"NDSS"\<close>).
\<close>

fun main_links :: "osenv \<Rightarrow> net \<Rightarrow> string \<Rightarrow> world \<Rightarrow> string list \<Rightarrow> world" where
  "main_links env nt confDirectory w [] = w"
| "main_links env nt confDirectory w (link # downloadLinks) =
     main_links env nt confDirectory
       (snd (downloadFile env nt w link (paperFilepath confDirectory link))) downloadLinks"

text \<open>The case \<open>"USENIX"\<close> of \<open>main\<close> (lines 202-245).\<close>

definition main_USENIX ::
  "urllib \<Rightarrow> osenv \<Rightarrow> net \<Rightarrow> string \<Rightarrow> world \<Rightarrow> Conference \<Rightarrow> unit outcome \<times> world" where
  "main_USENIX lib env nt outputDirectory w conf =
     (case createConfDirectory env w outputDirectory conf of
        (Inl err, w1) \<Rightarrow> (LogFatal (Error err), w1)
      | (Inr confDirectory, w1) \<Rightarrow>
          (case getLinks lib nt w1 (URL conf) paperMatcher of
             (LogFatal msg, w2) \<Rightarrow> (LogFatal msg, w2)
           | (Return (Inl err), w2) \<Rightarrow> (LogFatal (Error err), w2)
           | (Return (Inr pages), w2) \<Rightarrow>
               main_papers lib env nt confDirectory fileMatcher w2 pages))"

text \<open>
  The case \<open>"NDSS"\<close> (lines 246-334): the directory is made first, then the year decides.
  A year without a parser is logged.
\<close>

definition main_NDSS ::
  "urllib \<Rightarrow> osenv \<Rightarrow> net \<Rightarrow> string \<Rightarrow> world \<Rightarrow> Conference \<Rightarrow> unit outcome \<times> world" where
  "main_NDSS lib env nt outputDirectory w conf =
     (case createConfDirectory env w outputDirectory conf of
        (Inl err, w1) \<Rightarrow> (LogFatal (Error err), w1)
      | (Inr confDirectory, w1) \<Rightarrow>
          if Year conf = 2018 then
            (case getLinks lib nt w1 (URL conf) paperTextMatcher of
               (LogFatal msg, w2) \<Rightarrow> (LogFatal msg, w2)
             | (Return (Inl err), w2) \<Rightarrow> (LogFatal (Error err), w2)
             | (Return (Inr downloadLinks), w2) \<Rightarrow>
                 (Return (), main_links env nt confDirectory w2 downloadLinks))
          else if Year conf = 2017 \<or> Year conf = 2015 \<or> Year conf = 2014 then
            (case getLinks lib nt w1 (URL conf) headingMatcher of
               (LogFatal msg, w2) \<Rightarrow> (LogFatal msg, w2)
             | (Return (Inl err), w2) \<Rightarrow> (LogFatal (Error err), w2)
             | (Return (Inr pages), w2) \<Rightarrow>
                 main_papers lib env nt confDirectory paperTextMatcher w2 pages)
          else if Year conf = 2016 then
            (case getLinks lib nt w1 (URL conf) headingMatcher of
               (LogFatal msg, w2) \<Rightarrow> (LogFatal msg, w2)
             | (Return (Inl err), w2) \<Rightarrow> (LogFatal (Error err), w2)
             | (Return (Inr downloadLinks), w2) \<Rightarrow>
                 (Return (), main_links env nt confDirectory w2 downloadLinks))
          else (Return (), w1))"

text \<open>
  The body of the loop over the conferences of the configuration (lines 200-340), and the
  loop: a conference without a parser is logged, \<open>log.Fatal\<close> ends the run.
\<close>

definition main_conference ::
  "urllib \<Rightarrow> osenv \<Rightarrow> net \<Rightarrow> string \<Rightarrow> world \<Rightarrow> Conference \<Rightarrow> unit outcome \<times> world" where
  "main_conference lib env nt outputDirectory w conf =
     (if Name conf = ''USENIX'' then main_USENIX lib env nt outputDirectory w conf
      else if Name conf = ''NDSS'' then main_NDSS lib env nt outputDirectory w conf
      else (Return (), w))"

fun main_conferences ::
  "urllib \<Rightarrow> osenv \<Rightarrow> net \<Rightarrow> string \<Rightarrow> world \<Rightarrow> Conference list \<Rightarrow> unit outcome \<times> world" where
  "main_conferences lib env nt outputDirectory w [] = (Return (), w)"
| "main_conferences lib env nt outputDirectory w (conf # conferences) =
     (case main_conference lib env nt outputDirectory w conf of
        (LogFatal msg, w1) \<Rightarrow> (LogFatal msg, w1)
      | (Return u, w1) \<Rightarrow> main_conferences lib env nt outputDirectory w1 conferences)"

section \<open>The layout of the specification\<close>

text \<open>
  The path at which the specification places a download: the output directory, the name
  of the conference, its year and the name of the file, joined by slashes and cleaned as
  \<open>path.Join\<close> does; with the name of the file as the program takes it, the text after the
  last slash of the download URL, and with the name as the specification words it, the
  last segment of the path of the URL.
\<close>

definition layout_path :: "string \<Rightarrow> Conference \<Rightarrow> string \<Rightarrow> string" where
  "layout_path outputDirectory conf downloadUrl =
     path_Clean (outputDirectory @ ''/'' @ Name conf @ ''/'' @ Itoa (Year conf) @ ''/'' @
                 last (Split downloadUrl (CHR ''/'')))"

definition last_path_segment :: "string \<Rightarrow> string" where
  "last_path_segment downloadUrl =
     (case ref_Parse downloadUrl of
        Inl err \<Rightarrow> []
      | Inr u \<Rightarrow> last (Split (Path u) (CHR ''/'')))"

definition layout_path_by_segment :: "string \<Rightarrow> Conference \<Rightarrow> string \<Rightarrow> string" where
  "layout_path_by_segment outputDirectory conf downloadUrl =
     path_Clean (outputDirectory @ ''/'' @ Name conf @ ''/'' @ Itoa (Year conf) @ ''/'' @
                 last_path_segment downloadUrl)"

text \<open>
  What a download leaves in a file that it has created: the bytes that the response
  delivers, and nothing when the request fails.
\<close>

definition delivered :: "net \<Rightarrow> string \<Rightarrow> string" where
  "delivered nt url = (case http_Get nt url of Inl err \<Rightarrow> [] | Inr resp \<Rightarrow> Body resp)"

text \<open>
  The state \<open>w'\<close> continues the state \<open>w\<close> by downloads into the directories \<open>ds\<close>: no
  directory and no request is forgotten, a file that exists keeps its content, and a
  file that is new is the destination of a requested URL below one of the directories
  and holds what that request delivered.
\<close>

definition stored_by :: "net \<Rightarrow> string set \<Rightarrow> world \<Rightarrow> world \<Rightarrow> bool" where
  "stored_by nt ds w w' \<longleftrightarrow>
     dirs w \<subseteq> dirs w' \<and> set (requests w) \<subseteq> set (requests w') \<and>
     (\<forall>q c. files w q = Some c \<longrightarrow> files w' q = Some c) \<and>
     (\<forall>q. files w' q \<noteq> files w q \<longrightarrow>
        (\<exists>u d. u \<in> set (requests w') \<and> d \<in> ds \<and> q = paperFilepath d u \<and>
               files w' q = Some (delivered nt u)))"

section \<open>A small web and a small machine\<close>

text \<open>
  Concrete pages, a network that serves them and an operating system without faults, for
  running the functions above on explicit inputs.
\<close>

definition text_node :: "string \<Rightarrow> Node" where
  "text_node s = Node TextNode (atom_other 0) s [] []"

definition element :: "atom \<Rightarrow> string \<Rightarrow> (string \<times> string) list \<Rightarrow> Node list \<Rightarrow> Node" where
  "element a tag attrs cs = Node ElementNode a tag attrs cs"

definition document :: "Node list \<Rightarrow> Node" where
  "document cs =
     Node DocumentNode (atom_other 0) [] []
       [element (atom_other 0) ''html'' []
          [element (atom_other 0) ''head'' [] [], element (atom_other 0) ''body'' [] cs]]"

definition anchor :: "string \<Rightarrow> string \<Rightarrow> Node" where
  "anchor href label = element atom_A ''a'' [(''href'', href)] [text_node label]"

definition division :: "string \<Rightarrow> Node list \<Rightarrow> Node" where
  "division cls cs = element (atom_other 0) ''div'' [(''class'', cls)] cs"

text \<open>A page of one paper with one download link, one with none and one with two.\<close>

definition page_one :: Node where
  "page_one = document [division ''file'' [anchor ''paper1.pdf'' ''Download'']]"

definition page_none :: Node where
  "page_none = document [element (atom_other 0) ''p'' [] [text_node ''No paper yet'']]"

definition page_two :: Node where
  "page_two = document
     [division ''file'' [anchor ''slides.pdf'' ''Slides''],
      division ''file'' [anchor ''paper2.pdf'' ''Paper'']]"

text \<open>
  A search result that links to the gated domain, its list of all versions with a copy
  elsewhere, a result without such a list, and a result with two links to the gated domain.
\<close>

definition page_gated :: Node where
  "page_gated = document
     [division ''gs_or_ggsm'' [anchor ''https://www.ieee-security.org/TC/SP2017/papers/1.pdf'' ''[PDF]''],
      anchor ''/scholar?cluster=7'' '' All 12 versions '']"

definition page_versions :: Node where
  "page_versions = document
     [division ''gs_or_ggsm'' [anchor ''https://www.ieee-security.org/TC/SP2017/papers/1.pdf'' ''[PDF] ieee''],
      division ''gs_or_ggsm'' [anchor ''https://mirror.example/papers/1.pdf'' ''[PDF] mirror'']]"

definition page_gated_alone :: Node where
  "page_gated_alone = document
     [division ''gs_or_ggsm'' [anchor ''https://www.ieee-security.org/TC/SP2017/papers/2.pdf'' ''[PDF]''],
      anchor ''/scholar?cites=9'' ''Cited by 40'']"

definition page_gated_two :: Node where
  "page_gated_two = document
     [division ''gs_or_ggsm'' [anchor ''https://www.ieee-security.org/TC/SP2017/papers/3.pdf'' ''[PDF]''],
      division ''gs_or_ggsm'' [anchor ''https://www.ieee-security.org/TC/SP2017/papers/3b.pdf'' ''[PDF]''],
      anchor ''/scholar?cluster=7'' ''All 12 versions'']"

text \<open>
  A list of versions served by the gated domain itself, with a relative link to the
  paper and a link to itself as the list of all versions.
\<close>

definition page_loop :: Node where
  "page_loop = document
     [division ''gs_or_ggsm'' [anchor ''papers/1.pdf'' ''[PDF]''],
      anchor ''versions.html'' ''All 3 versions'']"

text \<open>
  A search result whose list of all versions is that page of the gated domain, and a page
  whose download link ends in a slash.
\<close>

definition page_gated_loop :: Node where
  "page_gated_loop = document
     [division ''gs_or_ggsm'' [anchor ''https://www.ieee-security.org/TC/SP2017/papers/1.pdf'' ''[PDF]''],
      anchor ''https://www.ieee-security.org/TC/SP2017/versions.html'' ''All 3 versions'']"

definition page_dir :: Node where
  "page_dir = document [division ''file'' [anchor ''archive/'' ''All files'']]"

text \<open>
  A search result whose link to the list of all versions has a no-break space (U+00A0)
  before its text and a thin space (U+2009) after it; and a search result whose list of
  all versions offers one copy, kept by an archive under a URL that ends in the URL of
  the original.
\<close>

definition page_gated_nbsp :: Node where
  "page_gated_nbsp = document
     [division ''gs_or_ggsm'' [anchor ''https://www.ieee-security.org/TC/SP2017/papers/4.pdf'' ''[PDF]''],
      anchor ''/scholar?cluster=7''
        ([CHR 0xC2, CHR 0xA0] @ ''All 12 versions'' @ [CHR 0xE2, CHR 0x80, CHR 0x89])]"

definition page_gated_archive :: Node where
  "page_gated_archive = document
     [division ''gs_or_ggsm'' [anchor ''https://www.ieee-security.org/TC/SP2017/papers/5.pdf'' ''[PDF]''],
      anchor ''/scholar?cluster=8'' ''All 2 versions'']"

definition page_archive :: Node where
  "page_archive = document
     [division ''gs_or_ggsm''
        [anchor ''https://web.archive.org/web/2017/https://www.ieee-security.org/TC/SP2017/papers/5.pdf''
           ''[PDF] archive.org'']]"

text \<open>
  The listing of a USENIX conference with four papers and a link that is none; a page
  whose download link has a slash in its query; and the listings of three NDSS
  conferences: links with the text \<open>Paper\<close>, a title under a heading that leads to the
  page of the paper, and a title under a heading that leads to the paper itself.
\<close>

definition paper_entry :: "string \<Rightarrow> string \<Rightarrow> Node" where
  "paper_entry href title =
     division ''node node-paper'' [element (atom_other 0) ''h2'' [] [anchor href title]]"

definition page_listing :: Node where
  "page_listing = document
     [paper_entry ''one.html'' ''Paper one'', paper_entry ''none.html'' ''Paper none'',
      paper_entry ''two.html'' ''Paper two'', paper_entry ''query.html'' ''Paper nine'',
      element (atom_other 0) ''p'' [] [anchor ''about.html'' ''About'']]"

definition page_query :: Node where
  "page_query = document [division ''file'' [anchor ''get.php?file=2017/paper9.pdf'' ''Download'']]"

definition page_ndss18 :: Node where
  "page_ndss18 = document
     [element (atom_other 0) ''li'' []
        [anchor ''papers/n18-1.pdf'' ''Paper'', anchor ''slides/n18-1.pdf'' ''Slides''],
      element (atom_other 0) ''li'' [] [anchor ''/wp/n18-2.pdf'' '' Paper '']]"

definition page_ndss17 :: Node where
  "page_ndss17 = document
     [element atom_H3 ''h3'' [] [anchor ''p1.html'' ''Title one''],
      element (atom_other 0) ''p'' [] [anchor ''about.html'' ''About'']]"

definition page_ndss17_p1 :: Node where
  "page_ndss17_p1 = document
     [element (atom_other 0) ''p'' []
        [anchor ''p1.pdf'' ''Paper'', anchor ''p1-slides.pdf'' ''Slides'']]"

definition page_ndss16 :: Node where
  "page_ndss16 = document [element atom_H3 ''h3'' [] [anchor ''n16-1.pdf'' ''Title one'']]"

definition example_site :: "(string \<times> string \<times> Node) list" where
  "example_site =
     [(''http://conf.example/2017/one.html'', ''one'', page_one),
      (''http://conf.example/2017/none.html'', ''none'', page_none),
      (''http://conf.example/2017/two.html'', ''two'', page_two),
      (''https://scholar.example/scholar?q=T1'', ''gated'', page_gated),
      (''https://scholar.example/scholar?cluster=7'', ''versions'', page_versions),
      (''https://scholar.example/scholar?q=T2'', ''gated alone'', page_gated_alone),
      (''https://scholar.example/scholar?q=T3'', ''gated two'', page_gated_two),
      (''https://www.ieee-security.org/TC/SP2017/versions.html'', ''loop'', page_loop),
      (''https://scholar.example/scholar?q=T4'', ''gated loop'', page_gated_loop),
      (''http://conf.example/2017/dir.html'', ''dir'', page_dir),
      (''https://scholar.example/scholar?q=T5'', ''gated nbsp'', page_gated_nbsp),
      (''https://scholar.example/scholar?q=T6'', ''gated archive'', page_gated_archive),
      (''https://scholar.example/scholar?cluster=8'', ''archive'', page_archive),
      (''http://conf.example/2017/'', ''listing'', page_listing),
      (''http://conf.example/2017/query.html'', ''query'', page_query),
      (''http://conf.example/2017/get.php?file=2017/paper9.pdf'', ''%PDF-1.4 paper nine'', page_none),
      (''http://ndss.example/2018/programme'', ''ndss18'', page_ndss18),
      (''http://ndss.example/2018/papers/n18-1.pdf'', ''%PDF-1.4 n18-1'', page_none),
      (''http://ndss.example/wp/n18-2.pdf'', ''%PDF-1.4 n18-2'', page_none),
      (''http://ndss.example/2017/programme'', ''ndss17'', page_ndss17),
      (''http://ndss.example/2017/p1.html'', ''ndss17 p1'', page_ndss17_p1),
      (''http://ndss.example/2017/p1.pdf'', ''%PDF-1.4 p1'', page_none),
      (''http://ndss.example/2016/programme'', ''ndss16'', page_ndss16),
      (''http://ndss.example/2016/n16-1.pdf'', ''%PDF-1.4 n16-1'', page_none),
      (''http://conf.example/2017/paper1.pdf'', ''%PDF-1.4 paper one'', page_none)]"

text \<open>
  The network of the example: a URL of the site answers with its body, complete; the
  URL \<open>http://conf.example/2017/cut.pdf\<close> answers with a body that breaks off; any other
  request fails. A body parses to the tree listed with it.
\<close>

definition example_net :: net where
  "example_net =
     \<lparr>http_Get = (\<lambda>url.
        if url = ''http://conf.example/2017/cut.pdf'' then
          Inr \<lparr>Body = ''%PDF-1.4 pap'', BodyErr = Some (LibError ''unexpected EOF'')\<rparr>
        else case map_of example_site url of
          None \<Rightarrow> Inl (LibError ''no such host'')
        | Some (body, tree) \<Rightarrow> Inr \<lparr>Body = body, BodyErr = None\<rparr>),
      html_Parse = (\<lambda>resp.
        case map_of (map snd example_site) (Body resp) of
          None \<Rightarrow> Inl (LibError ''cannot parse'')
        | Some tree \<Rightarrow> Inr tree)\<rparr>"

definition no_faults :: osenv where
  "no_faults = \<lparr>stat_fault = Map.empty, create_fault = Map.empty, mkdir_fault = Map.empty\<rparr>"

text \<open>
  A machine on which \<open>/root/papers\<close> may not be searched, and one on which no directory
  can be made below \<open>papers\<close>.
\<close>

definition denied :: osenv where
  "denied = \<lparr>stat_fault = [''/root/papers/paper1.pdf'' \<mapsto> ''permission denied''],
             create_fault = Map.empty, mkdir_fault = Map.empty\<rparr>"

definition readonly :: osenv where
  "readonly = \<lparr>stat_fault = Map.empty, create_fault = Map.empty,
               mkdir_fault = [''papers/USENIX/2017'' \<mapsto> ''read-only file system'']\<rparr>"

text \<open>
  The state at the start of a run, with the output directory \<open>papers\<close> made; the same
  with one paper stored; and the same with the directory of a conference.
\<close>

definition empty_world :: world where
  "empty_world = \<lparr>files = Map.empty, dirs = {''papers''}, requests = []\<rparr>"


definition conf_world :: world where
  "conf_world = \<lparr>files = Map.empty,
                 dirs = {''papers'', ''papers/USENIX'', ''papers/USENIX/2017''}, requests = []\<rparr>"

definition usenix17 :: Conference where
  "usenix17 = \<lparr>Name = ''USENIX'', URL = ''http://conf.example/2017/'', Year = 2017\<rparr>"

definition ndss18 :: Conference where
  "ndss18 = \<lparr>Name = ''NDSS'', URL = ''http://ndss.example/2018/programme'', Year = 2018\<rparr>"

definition ndss17 :: Conference where
  "ndss17 = \<lparr>Name = ''NDSS'', URL = ''http://ndss.example/2017/programme'', Year = 2017\<rparr>"

definition ndss16 :: Conference where
  "ndss16 = \<lparr>Name = ''NDSS'', URL = ''http://ndss.example/2016/programme'', Year = 2016\<rparr>"

definition ccs17 :: Conference where
  "ccs17 = \<lparr>Name = ''CCS'', URL = ''http://ccs.example/2017/'', Year = 2017\<rparr>"

definition example_conferences :: "Conference list" where
  "example_conferences = [usenix17, ndss18, ndss17, ndss16, ccs17]"

section \<open>Facts about the example web\<close>

lemma parse_absolute:
  "url_Parse ref_urllib ''https://y.org/c.pdf'' =
     Inr \<lparr>Scheme = ''https'', Opaque = [], Host = ''y.org'', Path = ''/c.pdf'',
          ForceQuery = False, RawQuery = [], Fragment = []\<rparr>"
  by code_simp

lemma parse_net_path:
  "url_Parse ref_urllib ''//y.org/c.pdf'' =
     Inr \<lparr>Scheme = [], Opaque = [], Host = ''y.org'', Path = ''/c.pdf'',
          ForceQuery = False, RawQuery = [], Fragment = []\<rparr>"
  by code_simp

lemma parse_fragment:
  "url_Parse ref_urllib ''#top'' =
     Inr \<lparr>Scheme = [], Opaque = [], Host = [], Path = [],
          ForceQuery = False, RawQuery = [], Fragment = ''top''\<rparr>"
  by code_simp

lemma parse_relative:
  "url_Parse ref_urllib ''c.pdf'' =
     Inr \<lparr>Scheme = [], Opaque = [], Host = [], Path = ''c.pdf'',
          ForceQuery = False, RawQuery = [], Fragment = []\<rparr>"
  by code_simp

lemma parse_bad: "url_Parse ref_urllib '':bad'' = Inl (LibError ''missing protocol scheme'')"
  by code_simp



lemma get_one:
  "http_Get example_net ''http://conf.example/2017/one.html'' = Inr \<lparr>Body = ''one'', BodyErr = None\<rparr>"
  by code_simp

lemma parse_one: "html_Parse example_net \<lparr>Body = ''one'', BodyErr = None\<rparr> = Inr page_one"
  by code_simp



lemma get_gated:
  "http_Get example_net ''https://scholar.example/scholar?q=T1'' = Inr \<lparr>Body = ''gated'', BodyErr = None\<rparr>"
  by code_simp

lemma parse_gated: "html_Parse example_net \<lparr>Body = ''gated'', BodyErr = None\<rparr> = Inr page_gated"
  by code_simp

lemma get_versions:
  "http_Get example_net ''https://scholar.example/scholar?cluster=7'' =
     Inr \<lparr>Body = ''versions'', BodyErr = None\<rparr>"
  by code_simp

lemma parse_versions:
  "html_Parse example_net \<lparr>Body = ''versions'', BodyErr = None\<rparr> = Inr page_versions"
  by code_simp

lemma get_gated_alone:
  "http_Get example_net ''https://scholar.example/scholar?q=T2'' =
     Inr \<lparr>Body = ''gated alone'', BodyErr = None\<rparr>"
  by code_simp

lemma parse_gated_alone:
  "html_Parse example_net \<lparr>Body = ''gated alone'', BodyErr = None\<rparr> = Inr page_gated_alone"
  by code_simp



lemma get_loop:
  "http_Get example_net ''https://www.ieee-security.org/TC/SP2017/versions.html'' =
     Inr \<lparr>Body = ''loop'', BodyErr = None\<rparr>"
  by code_simp

lemma parse_loop: "html_Parse example_net \<lparr>Body = ''loop'', BodyErr = None\<rparr> = Inr page_loop"
  by code_simp

lemma get_gated_loop:
  "http_Get example_net ''https://scholar.example/scholar?q=T4'' =
     Inr \<lparr>Body = ''gated loop'', BodyErr = None\<rparr>"
  by code_simp

lemma parse_gated_loop:
  "html_Parse example_net \<lparr>Body = ''gated loop'', BodyErr = None\<rparr> = Inr page_gated_loop"
  by code_simp

lemma get_dir:
  "http_Get example_net ''http://conf.example/2017/dir.html'' = Inr \<lparr>Body = ''dir'', BodyErr = None\<rparr>"
  by code_simp

lemma parse_dir: "html_Parse example_net \<lparr>Body = ''dir'', BodyErr = None\<rparr> = Inr page_dir"
  by code_simp

lemma get_gated_nbsp:
  "http_Get example_net ''https://scholar.example/scholar?q=T5'' =
     Inr \<lparr>Body = ''gated nbsp'', BodyErr = None\<rparr>"
  by code_simp

lemma parse_gated_nbsp:
  "html_Parse example_net \<lparr>Body = ''gated nbsp'', BodyErr = None\<rparr> = Inr page_gated_nbsp"
  by code_simp

lemma get_gated_archive:
  "http_Get example_net ''https://scholar.example/scholar?q=T6'' =
     Inr \<lparr>Body = ''gated archive'', BodyErr = None\<rparr>"
  by code_simp

lemma parse_gated_archive:
  "html_Parse example_net \<lparr>Body = ''gated archive'', BodyErr = None\<rparr> = Inr page_gated_archive"
  by code_simp

lemma get_archive:
  "http_Get example_net ''https://scholar.example/scholar?cluster=8'' =
     Inr \<lparr>Body = ''archive'', BodyErr = None\<rparr>"
  by code_simp

lemma parse_archive:
  "html_Parse example_net \<lparr>Body = ''archive'', BodyErr = None\<rparr> = Inr page_archive"
  by code_simp

lemma parse_mirror:
  "url_Parse ref_urllib ''https://mirror.example/papers/1.pdf'' =
     Inr \<lparr>Scheme = ''https'', Opaque = [], Host = ''mirror.example'', Path = ''/papers/1.pdf'',
          ForceQuery = False, RawQuery = [], Fragment = []\<rparr>"
  by code_simp

lemma TrimSpace_unicode:
  "TrimSpace ([CHR 0xC2, CHR 0xA0] @ ''All 12 versions'' @ [CHR 0xE2, CHR 0x80, CHR 0x89]) =
     ''All 12 versions''"
  by code_simp




section \<open>Strings and paths\<close>

lemma Split_not_Nil: "Split s sep \<noteq> []"
  by (induction s) (auto split: list.splits)

lemma Split_append: "Split (xs @ sep # ys) sep = Split xs sep @ Split ys sep"
proof (induction xs)
  case Nil
  show ?case by simp
next
  case (Cons x xs)
  then show ?case
    using Split_not_Nil [of xs sep] by (cases "Split xs sep") auto
qed

lemma Split_no_sep: "sep \<notin> set s \<Longrightarrow> Split s sep = [s]"
  by (induction s) auto

lemma Join_snoc: "Join (xs @ [x]) sep = (if xs = [] then x else Join xs sep @ sep # x)"
  by (induction xs sep rule: Join.induct) auto

lemma Join_Split: "Join (Split s sep) sep = s"
proof (induction s)
  case Nil
  show ?case by simp
next
  case (Cons x s)
  show ?case
  proof (cases "Split s sep")
    case Nil
    then show ?thesis using Split_not_Nil [of s sep] by simp
  next
    case (Cons y ys)
    with Cons.IH show ?thesis by (cases ys) auto
  qed
qed

lemma Split_elems_no_sep: "e \<in> set (Split s sep) \<Longrightarrow> sep \<notin> set e"
proof (induction s arbitrary: e)
  case Nil
  then show ?case by simp
next
  case (Cons x s)
  show ?case
  proof (cases "Split s sep")
    case Nil
    with Cons.prems show ?thesis by (auto split: if_splits)
  next
    case (Cons y ys)
    with Cons.prems Cons.IH show ?thesis by (auto split: if_splits)
  qed
qed

lemma Split_Join:
  "xs \<noteq> [] \<Longrightarrow> \<forall>e \<in> set xs. sep \<notin> set e \<Longrightarrow> Split (Join xs sep) sep = xs"
proof (induction xs sep rule: Join.induct)
  case (1 sep)
  then show ?case by simp
next
  case (2 x sep)
  then show ?case by (simp add: Split_no_sep)
next
  case (3 x y ys sep)
  then show ?case by (simp add: Split_append Split_no_sep)
qed

lemma last_Split: "Split s sep ! (length (Split s sep) - Suc 0) = last (Split s sep)"
  using Split_not_Nil [of s sep] by (simp add: last_conv_nth)

lemma clean_step_proper: "proper_segment seg \<Longrightarrow> clean_step rooted out seg = seg # out"
  by (simp add: clean_step_def proper_segment_def)

lemma path_Clean_extend:
  assumes c: "path_Clean out = out" and d: "out \<noteq> ''.''" and r: "out \<noteq> ''/''"
    and s: "proper_segment seg"
  shows "path_Clean (out @ CHR ''/'' # seg) = out @ CHR ''/'' # seg"
proof -
  have ne: "out \<noteq> []" using c by (auto simp: path_Clean_def)
  define rooted where "rooted = (hd out = CHR ''/'')"
  define st where "st = foldl (clean_step rooted) [] (Split out (CHR ''/''))"
  have sp: "Split (out @ CHR ''/'' # seg) (CHR ''/'') = Split out (CHR ''/'') @ [seg]"
    using s by (simp add: Split_append Split_no_sep proper_segment_def)
  have out_eq: "out = clean_string rooted st"
    using c ne by (simp add: path_Clean_def rooted_def st_def)
  have st_ne: "st \<noteq> []"
  proof
    assume "st = []"
    with out_eq d r show False by (auto simp: clean_string_def split: if_splits)
  qed
  have "path_Clean (out @ CHR ''/'' # seg) = clean_string rooted (seg # st)"
    using ne s by (simp add: path_Clean_def sp rooted_def st_def clean_step_proper)
  also have "\<dots> = clean_string rooted st @ CHR ''/'' # seg"
    using st_ne by (simp add: clean_string_def Join_snoc)
  finally show ?thesis using out_eq by simp
qed

lemma byte_char_of: "n < 256 \<Longrightarrow> byte (char_of n) = n"
  by (simp add: byte_def)

lemma decimal_digits: "c \<in> set (decimal n) \<Longrightarrow> is_digit c"
proof (induction n rule: decimal.induct)
  case (1 n)
  show ?case
  proof (cases "n < 10")
    case True
    with "1.prems" show ?thesis
      by (subst (asm) decimal.simps) (simp add: is_digit_def byte_char_of)
  next
    case False
    with "1.prems" have "c \<in> set (decimal (n div 10)) \<or> c = char_of (48 + n mod 10)"
      by (subst (asm) decimal.simps) auto
    then show ?thesis
    proof
      assume "c \<in> set (decimal (n div 10))"
      with "1.IH" False show ?thesis by simp
    next
      assume "c = char_of (48 + n mod 10)"
      moreover have "48 + n mod 10 < 256" by simp
      ultimately show ?thesis
        by (simp add: is_digit_def byte_char_of)
    qed
  qed
qed

lemma decimal_not_Nil: "decimal n \<noteq> []"
  by (subst decimal.simps) simp

lemma proper_segment_decimal: "proper_segment (decimal n)"
proof -
  have nd: "\<not> is_digit (CHR ''.'')" "\<not> is_digit (CHR ''/'')"
    by (simp_all add: is_digit_def byte_def)
  have "decimal n \<noteq> ''.''" "decimal n \<noteq> ''..''" "CHR ''/'' \<notin> set (decimal n)"
    using decimal_digits [of _ n] nd by (force)+
  then show ?thesis by (simp add: proper_segment_def decimal_not_Nil)
qed

lemma proper_segment_Itoa: "proper_segment (Itoa i)"
proof (cases "i < 0")
  case True
  have "CHR ''/'' \<notin> set (decimal (nat (- i)))"
    using proper_segment_decimal [of "nat (- i)"] by (simp add: proper_segment_def)
  with True show ?thesis by (simp add: Itoa_def proper_segment_def)
next
  case False
  then show ?thesis by (simp add: Itoa_def proper_segment_decimal)
qed

lemma long_not_single: "2 \<le> length s \<Longrightarrow> s \<noteq> [c]"
  by auto

lemma path_prefixes_extend:
  assumes a: "proper_segment a" and ne: "out \<noteq> []"
  shows "set (path_prefixes (out @ CHR ''/'' # a)) = insert (out @ CHR ''/'' # a) (set (path_prefixes out))"
proof -
  let ?cs = "Split out (CHR ''/'')"
  have sp: "Split (out @ CHR ''/'' # a) (CHR ''/'') = ?cs @ [a]"
    using a by (simp add: Split_append Split_no_sep proper_segment_def)
  have cne: "?cs \<noteq> []" by (rule Split_not_Nil)
  have j: "Join (?cs @ [a]) (CHR ''/'') = out @ CHR ''/'' # a"
    using cne by (simp add: Join_snoc Join_Split)
  have m: "map (\<lambda>k. Join (take k (?cs @ [a])) (CHR ''/'')) [1 ..< Suc (length ?cs)] =
           map (\<lambda>k. Join (take k ?cs) (CHR ''/'')) [1 ..< Suc (length ?cs)]"
    by (rule map_cong) auto
  have u: "[1 ..< Suc (length (?cs @ [a]))] = [1 ..< Suc (length ?cs)] @ [Suc (length ?cs)]"
    by simp
  show ?thesis
    unfolding path_prefixes_def sp u using m j by auto
qed

lemma path_prefixes_self: "p \<noteq> [] \<Longrightarrow> p \<in> set (path_prefixes p)"
proof -
  assume ne: "p \<noteq> []"
  let ?cs = "Split p (CHR ''/'')"
  have "length ?cs \<in> set [1 ..< Suc (length ?cs)]" using Split_not_Nil [of p "CHR ''/''"] by (cases ?cs) auto
  moreover have "Join (take (length ?cs) ?cs) (CHR ''/'') = p" by (simp add: Join_Split)
  ultimately have "p \<in> (\<lambda>k. Join (take k ?cs) (CHR ''/'')) ` set [1 ..< Suc (length ?cs)]"
    by (metis (no_types, lifting) image_eqI)
  with ne show ?thesis by (auto simp: path_prefixes_def)
qed

text \<open>
  \<open>path.Clean\<close> is idempotent, and cleaning a cleaned path extended by one element is
  cleaning the extended path: the elements kept are read back from the cleaned string.
\<close>

lemma clean_step_stack:
  "clean_stack rooted out \<Longrightarrow> CHR ''/'' \<notin> set e \<Longrightarrow> clean_stack rooted (clean_step rooted out e)"
  by (cases out) (auto simp: clean_step_def)

lemma foldl_clean_stack:
  "clean_stack rooted out \<Longrightarrow> \<forall>e \<in> set es. CHR ''/'' \<notin> set e \<Longrightarrow>
   clean_stack rooted (foldl (clean_step rooted) out es)"
  by (induction es arbitrary: out) (simp_all add: clean_step_stack)

lemma clean_step_again:
  assumes "clean_stack rooted (e # out)"
  shows "clean_step rooted out e = e # out"
proof (cases "e = ''..''")
  case True
  with assms have nr: "\<not> rooted" and dots: "\<forall>x \<in> set out. x = ''..''" by simp_all
  show ?thesis
  proof (cases out)
    case Nil
    with True nr show ?thesis by (simp add: clean_step_def)
  next
    case (Cons x xs)
    with dots have "x = ''..''" by simp
    with True Cons show ?thesis by (simp add: clean_step_def)
  qed
next
  case False
  with assms show ?thesis by (simp add: clean_step_def)
qed

lemma foldl_clean_step_rev:
  "clean_stack rooted out \<Longrightarrow> foldl (clean_step rooted) [] (rev out) = out"
proof (induction out)
  case Nil
  show ?case by simp
next
  case (Cons a out)
  from Cons.prems have "clean_stack rooted out" by simp
  with Cons.IH have "foldl (clean_step rooted) [] (rev out) = out" by simp
  then show ?case using clean_step_again [OF Cons.prems] by simp
qed

lemma Join_not_Nil: "xs \<noteq> [] \<Longrightarrow> hd xs \<noteq> [] \<Longrightarrow> Join xs sep \<noteq> [] \<and> hd (Join xs sep) = hd (hd xs)"
  by (induction xs sep rule: Join.induct) auto

lemma clean_stack_Cons:
  "clean_stack rooted (e # out) \<Longrightarrow> e \<noteq> [] \<and> CHR ''/'' \<notin> set e \<and> clean_stack rooted out"
  by simp

lemma clean_stack_elems:
  assumes "clean_stack rooted out" and "e \<in> set out"
  shows "e \<noteq> [] \<and> CHR ''/'' \<notin> set e"
  using assms
proof (induction out)
  case Nil
  then show ?case by simp
next
  case (Cons a out)
  from clean_stack_Cons [OF Cons.prems(1)]
  have a: "a \<noteq> [] \<and> CHR ''/'' \<notin> set a" and r: "clean_stack rooted out" by blast+
  from Cons.prems(2) have "e = a \<or> e \<in> set out" by simp
  then show ?case using a Cons.IH [OF r] by blast
qed

lemma clean_stack_last:
  "clean_stack rooted out \<Longrightarrow> out \<noteq> [] \<Longrightarrow> last out \<noteq> [] \<and> CHR ''/'' \<notin> set (last out)"
  using clean_stack_elems [of rooted out "last out"] last_in_set [of out] by blast

lemma clean_string_not_Nil:
  assumes "clean_stack rooted out"
  shows "clean_string rooted out \<noteq> [] \<and> (hd (clean_string rooted out) = CHR ''/'') = rooted"
proof (cases "rooted \<or> out = []")
  case True
  then show ?thesis by (auto simp: clean_string_def)
next
  case False
  then have ne: "rev out \<noteq> []" by simp
  from False clean_stack_last [OF assms] have l: "hd (rev out) \<noteq> []" "CHR ''/'' \<notin> set (hd (rev out))"
    by (simp_all add: hd_rev)
  from l have "hd (hd (rev out)) \<noteq> CHR ''/''" by (cases "hd (rev out)") auto
  with Join_not_Nil [OF ne l(1), of "CHR ''/''"] False show ?thesis
    by (simp add: clean_string_def)
qed

lemma Split_clean_string:
  assumes "clean_stack rooted out"
  shows "foldl (clean_step rooted) [] (Split (clean_string rooted out) (CHR ''/'')) = out"
proof (cases "out = []")
  case True
  then show ?thesis by (simp add: clean_string_def clean_step_def)
next
  case False
  then have ne: "rev out \<noteq> []" by simp
  have el: "\<forall>e \<in> set (rev out). CHR ''/'' \<notin> set e"
    using clean_stack_elems [OF assms] by simp
  have sj: "Split (Join (rev out) (CHR ''/'')) (CHR ''/'') = rev out"
    by (rule Split_Join [OF ne el])
  show ?thesis
  proof (cases rooted)
    case True
    have "foldl (clean_step rooted) [] (Split (CHR ''/'' # Join (rev out) (CHR ''/'')) (CHR ''/'')) =
            foldl (clean_step rooted) [] (rev out)"
      by (simp add: sj clean_step_def)
    with True foldl_clean_step_rev [OF assms] show ?thesis by (simp add: clean_string_def)
  next
    case nr: False
    with False sj foldl_clean_step_rev [OF assms] show ?thesis by (simp add: clean_string_def)
  qed
qed

lemma path_Clean_stack:
  assumes "x \<noteq> []"
  shows "clean_stack (hd x = CHR ''/'') (foldl (clean_step (hd x = CHR ''/'')) [] (Split x (CHR ''/'')))"
  by (rule foldl_clean_stack) (auto dest: Split_elems_no_sep)

lemma path_Clean_snoc:
  assumes "x \<noteq> []" and "CHR ''/'' \<notin> set f"
  shows "path_Clean (x @ CHR ''/'' # f) =
           clean_string (hd x = CHR ''/'')
             (clean_step (hd x = CHR ''/'') (foldl (clean_step (hd x = CHR ''/'')) [] (Split x (CHR ''/''))) f)"
  using assms by (simp add: path_Clean_def Split_append Split_no_sep)

lemma path_Clean_Clean_snoc:
  assumes x: "x \<noteq> []" and f: "CHR ''/'' \<notin> set f"
  shows "path_Clean (path_Clean x @ CHR ''/'' # f) = path_Clean (x @ CHR ''/'' # f)"
proof -
  let ?r = "hd x = CHR ''/''"
  let ?st = "foldl (clean_step ?r) [] (Split x (CHR ''/''))"
  have st: "clean_stack ?r ?st" by (rule path_Clean_stack [OF x])
  have y: "path_Clean x = clean_string ?r ?st" using x by (simp add: path_Clean_def)
  from clean_string_not_Nil [OF st] have ne: "clean_string ?r ?st \<noteq> []"
    and hd: "(hd (clean_string ?r ?st) = CHR ''/'') = ?r" by blast+
  have "path_Clean (clean_string ?r ?st @ CHR ''/'' # f) = clean_string ?r (clean_step ?r ?st f)"
    unfolding path_Clean_snoc [OF ne f] hd Split_clean_string [OF st] ..
  then show ?thesis unfolding y path_Clean_snoc [OF x f] .
qed

lemma path_Clean_idem: "path_Clean (path_Clean x) = path_Clean x"
proof (cases "x = []")
  case True
  then show ?thesis by (simp add: path_Clean_def clean_string_def clean_step_def)
next
  case False
  let ?r = "hd x = CHR ''/''"
  let ?st = "foldl (clean_step ?r) [] (Split x (CHR ''/''))"
  have st: "clean_stack ?r ?st" by (rule path_Clean_stack [OF False])
  have y: "path_Clean x = clean_string ?r ?st" using False by (simp add: path_Clean_def)
  from clean_string_not_Nil [OF st] have ne: "clean_string ?r ?st \<noteq> []"
    and hd: "(hd (clean_string ?r ?st) = CHR ''/'') = ?r" by blast+
  have "path_Clean (clean_string ?r ?st) = clean_string ?r ?st"
    using ne by (simp add: path_Clean_def hd Split_clean_string [OF st])
  then show ?thesis unfolding y .
qed

lemma path_Clean_not_Nil: "path_Clean x \<noteq> []"
proof (cases "x = []")
  case True
  then show ?thesis by (simp add: path_Clean_def)
next
  case False
  from clean_string_not_Nil [OF path_Clean_stack [OF False]] False
  show ?thesis by (simp add: path_Clean_def)
qed

lemma path_Clean_empty_elem:
  assumes "x \<noteq> []"
  shows "path_Clean (x @ CHR ''/'' # CHR ''/'' # y) = path_Clean (x @ CHR ''/'' # y)"
  using assms by (simp add: path_Clean_def Split_append clean_step_def)

lemma path_Clean_trailing:
  assumes "x \<noteq> []"
  shows "path_Clean (x @ ''/'') = path_Clean x"
  using assms by (simp add: path_Clean_def Split_append clean_step_def)

lemma path_Join_pair:
  assumes x: "x \<noteq> []" and f: "CHR ''/'' \<notin> set f"
  shows "path_Join [path_Clean x, f] = path_Clean (x @ CHR ''/'' # f)"
proof (cases "f = []")
  case True
  with x path_Clean_not_Nil [of x] show ?thesis
    by (simp add: path_Join_def path_Clean_idem path_Clean_trailing)
next
  case False
  with path_Clean_not_Nil [of x] show ?thesis
    by (simp add: path_Join_def path_Clean_Clean_snoc [OF x f])
qed

lemma path_Join_triple:
  assumes x: "x \<noteq> []" and b: "b \<noteq> []"
  shows "path_Join [x, a, b] = path_Clean (x @ CHR ''/'' # a @ CHR ''/'' # b)"
  using assms by (cases "a = []") (simp_all add: path_Join_def path_Clean_empty_elem)

section \<open>The resolver, step by step\<close>


lemma getDownloadUrl_one_link:
  assumes "http_Get nt pageUrl = Inr resp" and "html_Parse nt resp = Inr root"
    and "length (scrape_FindAll ([], root) matcher) = 1"
    and "getFullUrl lib pageUrl (scrape_Attr (scrape_FindAll ([], root) matcher ! 0) ''href'') =
           Inr fileUrl"
  shows "getDownloadUrl lib nt w pageUrl matcher = ((fileUrl, None), sent w pageUrl)"
  using assms by (cases "scrape_FindAll ([], root) matcher") (simp_all add: getDownloadUrl_def Let_def)

lemma resolve_one:
  "getDownloadUrl ref_urllib example_net w ''http://conf.example/2017/one.html'' fileMatcher =
     ((''http://conf.example/2017/paper1.pdf'', None), sent w ''http://conf.example/2017/one.html'')"
proof -
  have n: "length (scrape_FindAll ([], page_one) fileMatcher) = 1" by code_simp
  have u: "getFullUrl ref_urllib ''http://conf.example/2017/one.html''
              (scrape_Attr (scrape_FindAll ([], page_one) fileMatcher ! 0) ''href'') =
            Inr ''http://conf.example/2017/paper1.pdf''" by code_simp
  show ?thesis by (rule getDownloadUrl_one_link [OF get_one parse_one n u])
qed

lemma resolve_dir:
  "getDownloadUrl ref_urllib example_net w ''http://conf.example/2017/dir.html'' fileMatcher =
     ((''http://conf.example/2017/archive/'', None), sent w ''http://conf.example/2017/dir.html'')"
proof -
  have n: "length (scrape_FindAll ([], page_dir) fileMatcher) = 1" by code_simp
  have u: "getFullUrl ref_urllib ''http://conf.example/2017/dir.html''
              (scrape_Attr (scrape_FindAll ([], page_dir) fileMatcher ! 0) ''href'') =
            Inr ''http://conf.example/2017/archive/''" by code_simp
  show ?thesis by (rule getDownloadUrl_one_link [OF get_dir parse_dir n u])
qed

text \<open>A result does not change when more nested calls are allowed.\<close>

lemma getDownloadUrl_gated_fuel_mono:
  "getDownloadUrl_gated fuel lib nt w pageUrl matcher = Some r \<Longrightarrow>
   getDownloadUrl_gated (fuel + k) lib nt w pageUrl matcher = Some r"
proof (induction fuel arbitrary: w pageUrl matcher)
  case 0
  then show ?case by simp
next
  case (Suc fuel)
  then show ?case
    by (auto simp: Let_def split: sum.splits if_splits option.splits)
qed

lemma getDownloadUrl_gated_second_hop:
  assumes "http_Get nt pageUrl = Inr resp" and "html_Parse nt resp = Inr root"
    and "length (scrape_FindAll ([], root) matcher) = 1"
    and "getFullUrl lib pageUrl (scrape_Attr (scrape_FindAll ([], root) matcher ! 0) ''href'') =
           Inr fileUrl"
    and "Contains fileUrl ''www.ieee-security.org''"
    and "scrape_Find ([], root) allVersionsMatcher = Some versionLink"
    and "getFullUrl lib pageUrl (scrape_Attr versionLink ''href'') = Inr versionUrl"
  shows "getDownloadUrl_gated (Suc fuel) lib nt w pageUrl matcher =
           getDownloadUrl_gated fuel lib nt (sent w pageUrl) versionUrl urlMatcher"
  using assms by (cases "scrape_FindAll ([], root) matcher") (simp_all add: Let_def)

lemma getDownloadUrl_gated_no_link:
  assumes "http_Get nt pageUrl = Inr resp" and "html_Parse nt resp = Inr root"
    and "scrape_FindAll ([], root) matcher = []"
  shows "getDownloadUrl_gated (Suc fuel) lib nt w pageUrl matcher =
           Some (Return ([], Some MissingDownloadLinkErr), sent w pageUrl)"
  using assms by (simp add: Let_def)

lemma getDownloadUrl_gated_plain:
  assumes "http_Get nt pageUrl = Inr resp" and "html_Parse nt resp = Inr root"
    and "length (scrape_FindAll ([], root) matcher) = 1"
    and "getFullUrl lib pageUrl (scrape_Attr (scrape_FindAll ([], root) matcher ! 0) ''href'') =
           Inr fileUrl"
    and "\<not> Contains fileUrl ''www.ieee-security.org''"
  shows "getDownloadUrl_gated (Suc fuel) lib nt w pageUrl matcher =
           Some (Return (fileUrl, None), sent w pageUrl)"
  using assms by (cases "scrape_FindAll ([], root) matcher") (simp_all add: Let_def)

text \<open>
  Whatever \<open>scrape.FindAll\<close> returns satisfies the matcher; so an anchor found by
  \<open>urlMatcher\<close> has no \<open>www.ieee-security.org\<close> in its href, and when that href is an
  absolute URL the second call returns it without a further call.
\<close>

lemma findAllInternal_matches:
  "n \<in> set (findAllInternal anc node matcher nested) \<Longrightarrow> matcher n"
proof (induction anc node matcher nested arbitrary: n rule: findAllInternal.induct)
  case (1 anc t a d at cs matcher searchNested)
  show ?case
  proof (cases "matcher (anc, Node t a d at cs) \<and> \<not> searchNested")
    case True
    with "1.prems" show ?thesis by simp
  next
    case False
    with "1.prems" have "n = (anc, Node t a d at cs) \<and> matcher (anc, Node t a d at cs) \<or>
      (\<exists>c \<in> set cs. n \<in> set (findAllInternal (Node t a d at cs # anc) c matcher searchNested))"
      by (auto split: if_splits)
    with "1.IH" False show ?thesis by blast
  qed
qed

lemma scrape_FindAll_matches: "n \<in> set (scrape_FindAll node matcher) \<Longrightarrow> matcher n"
  by (auto simp: scrape_FindAll_def dest: findAllInternal_matches)

lemma urlMatcher_not_gated:
  "urlMatcher n \<Longrightarrow> \<not> Contains (scrape_Attr n ''href'') ''www.ieee-security.org''"
  by (auto simp: urlMatcher_def Let_def split: if_splits)

lemma getDownloadUrl_gated_absolute_link:
  assumes "http_Get nt versionUrl = Inr resp" and "html_Parse nt resp = Inr root"
    and one: "length (scrape_FindAll ([], root) urlMatcher) = 1"
    and "url_Parse lib (scrape_Attr (scrape_FindAll ([], root) urlMatcher ! 0) ''href'') = Inr link"
    and "Scheme link \<noteq> []" and "Host link \<noteq> []"
  shows "getDownloadUrl_gated (Suc fuel) lib nt w versionUrl urlMatcher =
           Some (Return (scrape_Attr (scrape_FindAll ([], root) urlMatcher ! 0) ''href'', None),
                 sent w versionUrl)"
proof -
  let ?n = "scrape_FindAll ([], root) urlMatcher ! 0"
  have "?n \<in> set (scrape_FindAll ([], root) urlMatcher)" using one by simp
  then have ng: "\<not> Contains (scrape_Attr ?n ''href'') ''www.ieee-security.org''"
    by (intro urlMatcher_not_gated scrape_FindAll_matches)
  have u: "getFullUrl lib versionUrl (scrape_Attr ?n ''href'') = Inr (scrape_Attr ?n ''href'')"
    using assms by (simp add: getFullUrl_def)
  show ?thesis by (rule getDownloadUrl_gated_plain [OF assms(1,2) one u ng])
qed

lemma loop_step:
  "getDownloadUrl_gated (Suc fuel) ref_urllib example_net w
     ''https://www.ieee-security.org/TC/SP2017/versions.html'' urlMatcher =
   getDownloadUrl_gated fuel ref_urllib example_net
     (sent w ''https://www.ieee-security.org/TC/SP2017/versions.html'')
     ''https://www.ieee-security.org/TC/SP2017/versions.html'' urlMatcher"
proof -
  let ?L = "''https://www.ieee-security.org/TC/SP2017/versions.html''"
  have n: "length (scrape_FindAll ([], page_loop) urlMatcher) = 1" by code_simp
  have u: "getFullUrl ref_urllib ?L (scrape_Attr (scrape_FindAll ([], page_loop) urlMatcher ! 0) ''href'') =
           Inr ''https://www.ieee-security.org/TC/SP2017/papers/1.pdf''" by code_simp
  have g: "Contains ''https://www.ieee-security.org/TC/SP2017/papers/1.pdf'' ''www.ieee-security.org''"
    by code_simp
  have "scrape_Find ([], page_loop) allVersionsMatcher \<noteq> None" by code_simp
  then obtain v where v: "scrape_Find ([], page_loop) allVersionsMatcher = Some v" by blast
  have "getFullUrl ref_urllib ?L
          (scrape_Attr (the (scrape_Find ([], page_loop) allVersionsMatcher)) ''href'') = Inr ?L"
    by code_simp
  with v have uv: "getFullUrl ref_urllib ?L (scrape_Attr v ''href'') = Inr ?L" by simp
  show ?thesis
    by (rule getDownloadUrl_gated_second_hop [OF get_loop parse_loop n u g v uv])
qed

lemma loop_entry:
  "getDownloadUrl_gated (Suc fuel) ref_urllib example_net w
     ''https://scholar.example/scholar?q=T4'' scholarMatcher =
   getDownloadUrl_gated fuel ref_urllib example_net
     (sent w ''https://scholar.example/scholar?q=T4'')
     ''https://www.ieee-security.org/TC/SP2017/versions.html'' urlMatcher"
proof -
  let ?T = "''https://scholar.example/scholar?q=T4''"
  let ?L = "''https://www.ieee-security.org/TC/SP2017/versions.html''"
  have n: "length (scrape_FindAll ([], page_gated_loop) scholarMatcher) = 1" by code_simp
  have u: "getFullUrl ref_urllib ?T
             (scrape_Attr (scrape_FindAll ([], page_gated_loop) scholarMatcher ! 0) ''href'') =
           Inr ''https://www.ieee-security.org/TC/SP2017/papers/1.pdf''" by code_simp
  have g: "Contains ''https://www.ieee-security.org/TC/SP2017/papers/1.pdf'' ''www.ieee-security.org''"
    by code_simp
  have "scrape_Find ([], page_gated_loop) allVersionsMatcher \<noteq> None" by code_simp
  then obtain v where v: "scrape_Find ([], page_gated_loop) allVersionsMatcher = Some v" by blast
  have "getFullUrl ref_urllib ?T
          (scrape_Attr (the (scrape_Find ([], page_gated_loop) allVersionsMatcher)) ''href'') = Inr ?L"
    by code_simp
  with v have uv: "getFullUrl ref_urllib ?T (scrape_Attr v ''href'') = Inr ?L" by simp
  show ?thesis
    by (rule getDownloadUrl_gated_second_hop [OF get_gated_loop parse_gated_loop n u g v uv])
qed

lemma loop_forever:
  "getDownloadUrl_gated fuel ref_urllib example_net w
     ''https://www.ieee-security.org/TC/SP2017/versions.html'' urlMatcher = None"
  by (induction fuel arbitrary: w) (simp_all only: getDownloadUrl_gated.simps(1) loop_step)

section \<open>The file system and the driver, step by step\<close>

lemma os_IsNotExist_Stat:
  "os_IsNotExist (os_Stat env w name) \<longleftrightarrow>
     stat_fault env name = None \<and> files w name = None \<and> name \<notin> dirs w"
  by (auto simp: os_Stat_def split: option.splits)

lemma downloadFile_writes:
  assumes "os_IsNotExist (os_Stat env w filepath)" and "create_fault env filepath = None"
    and "http_Get nt url = Inr resp" and "BodyErr resp = None"
  shows "downloadFile env nt w url filepath =
           (None, w\<lparr>files := (files w)(filepath \<mapsto> Body resp), requests := requests w @ [url]\<rparr>)"
  using assms
  by (auto simp: os_IsNotExist_Stat downloadFile_def os_Create_def io_Copy_def sent_def)

lemma paperFilepath_Clean:
  assumes "x \<noteq> []"
  shows "paperFilepath (path_Clean x) downloadUrl =
           path_Clean (x @ CHR ''/'' # last (Split downloadUrl (CHR ''/'')))"
proof -
  have "CHR ''/'' \<notin> set (last (Split downloadUrl (CHR ''/'')))"
    using Split_elems_no_sep [of "last (Split downloadUrl (CHR ''/''))" downloadUrl "CHR ''/''"]
      last_in_set [OF Split_not_Nil [of downloadUrl "CHR ''/''"]] by blast
  from path_Join_pair [OF assms this] show ?thesis
    by (simp only: paperFilepath_def Let_def last_Split One_nat_def)
qed

lemma errs_distinct: "TooManyDownloadLinksErr \<noteq> MissingDownloadLinkErr"
  by (simp add: TooManyDownloadLinksErr_def MissingDownloadLinkErr_def)

lemma createConfDirectory_Inr:
  assumes "createConfDirectory env w outputDirectory conf = (Inr confDirectory, w1)"
  shows "confDirectory = path_Join [outputDirectory, Name conf, Itoa (Year conf)] \<and>
         (os_IsNotExist (os_Stat env w confDirectory) \<longrightarrow>
            dirs w1 = dirs w \<union> set (path_prefixes confDirectory))"
  using assms
  by (auto simp: createConfDirectory_def Let_def os_MkdirAll_def
           split: if_splits option.splits)

lemma createConfDirectory_Inl:
  assumes "createConfDirectory env w outputDirectory conf = (Inl err, w1)"
  shows "w1 = w"
  using assms
  by (auto simp: createConfDirectory_def Let_def os_MkdirAll_def
           split: if_splits option.splits)

lemma usenix17_directory:
  "path_Join [''papers'', Name usenix17, Itoa (Year usenix17)] = ''papers/USENIX/2017''"
  by code_simp

lemma create_usenix17:
  "createConfDirectory no_faults empty_world ''papers'' usenix17 =
     (Inr ''papers/USENIX/2017'',
      empty_world\<lparr>dirs := dirs empty_world \<union> set (path_prefixes ''papers/USENIX/2017'')\<rparr>)"
  by (simp add: createConfDirectory_def usenix17_directory os_Stat_def os_MkdirAll_def
        no_faults_def empty_world_def list_ex_iff Let_def)

lemma create_usenix17_readonly:
  "createConfDirectory readonly empty_world ''papers'' usenix17 =
     (Inl (LibError ''read-only file system''), empty_world)"
  by (simp add: createConfDirectory_def usenix17_directory os_Stat_def os_MkdirAll_def
        readonly_def empty_world_def Let_def)

section \<open>URL resolution\<close>

text \<open>
  Claim C3. A candidate that parses and has both a scheme and a host is returned as it
  is, whatever the base: the base is not even parsed.
\<close>

theorem getFullUrl_absolute_unchanged:
  assumes "url_Parse lib linkUrl = Inr link" and "Scheme link \<noteq> []" and "Host link \<noteq> []"
  shows "getFullUrl lib baseUrl linkUrl = Inr linkUrl"
  using assms by (simp add: getFullUrl_def)

theorem getFullUrl_absolute_unchanged_witness:
  "url_Parse ref_urllib ''https://y.org/c.pdf'' =
     Inr \<lparr>Scheme = ''https'', Opaque = [], Host = ''y.org'', Path = ''/c.pdf'',
          ForceQuery = False, RawQuery = [], Fragment = []\<rparr>
   \<and> getFullUrl ref_urllib '':bad'' ''https://y.org/c.pdf'' = Inr ''https://y.org/c.pdf''"
proof -
  have "getFullUrl ref_urllib '':bad'' ''https://y.org/c.pdf'' = Inr ''https://y.org/c.pdf''"
    by (rule getFullUrl_absolute_unchanged [OF parse_absolute]) simp_all
  with parse_absolute show ?thesis by blast
qed

text \<open>
  Claim C4. A candidate without a scheme (a relative path, a reference that starts with
  two slashes, a query or a fragment alone) is resolved against the base by the library:
  the result is the string of \<open>ResolveReference\<close> applied to the parsed base and the
  parsed candidate, and the error of the parser when the base does not parse. A candidate
  that does not parse gives the error of the parser. On the reference implementation the
  base \<open>https://x.org/a/b\<close> and the candidate \<open>c.pdf\<close> give \<open>https://x.org/a/c.pdf\<close>.
\<close>

theorem getFullUrl_relative_resolution:
  "(\<forall>link. url_Parse lib linkUrl = Inr link \<and> Scheme link = [] \<longrightarrow>
      getFullUrl lib baseUrl linkUrl =
        (case url_Parse lib baseUrl of
           Inl err \<Rightarrow> Inl err
         | Inr base \<Rightarrow> Inr (url_String lib (ResolveReference lib base link))))
   \<and> (\<forall>err. url_Parse lib linkUrl = Inl err \<longrightarrow> getFullUrl lib baseUrl linkUrl = Inl err)
   \<and> getFullUrl ref_urllib ''https://x.org/a/b'' ''c.pdf'' = Inr ''https://x.org/a/c.pdf''"
proof (intro conjI allI impI)
  fix link
  assume "url_Parse lib linkUrl = Inr link \<and> Scheme link = []"
  then show "getFullUrl lib baseUrl linkUrl =
        (case url_Parse lib baseUrl of
           Inl err \<Rightarrow> Inl err
         | Inr base \<Rightarrow> Inr (url_String lib (ResolveReference lib base link)))"
    by (simp add: getFullUrl_def URL_Parse_def split: sum.splits)
next
  fix err
  assume "url_Parse lib linkUrl = Inl err"
  then show "getFullUrl lib baseUrl linkUrl = Inl err"
    by (simp add: getFullUrl_def)
next
  show "getFullUrl ref_urllib ''https://x.org/a/b'' ''c.pdf'' = Inr ''https://x.org/a/c.pdf''"
    by code_simp
qed

theorem getFullUrl_relative_resolution_witness:
  "getFullUrl ref_urllib ''https://x.org/a/b?q=1#f'' ''//y.org/c.pdf'' = Inr ''https://y.org/c.pdf''
   \<and> getFullUrl ref_urllib ''https://x.org/a/b?q=1#f'' ''#top'' = Inr ''https://x.org/a/b?q=1#top''
   \<and> getFullUrl ref_urllib '':bad'' ''c.pdf'' = Inl (LibError ''missing protocol scheme'')
   \<and> getFullUrl ref_urllib ''https://x.org/a/b'' '':bad'' = Inl (LibError ''missing protocol scheme'')"
proof -
  let ?base = "''https://x.org/a/b?q=1#f''"
  let ?net_path = "\<lparr>Scheme = [], Opaque = [], Host = ''y.org'', Path = ''/c.pdf'',
          ForceQuery = False, RawQuery = [], Fragment = []\<rparr>"
  let ?fragment = "\<lparr>Scheme = [], Opaque = [], Host = [], Path = [],
          ForceQuery = False, RawQuery = [], Fragment = ''top''\<rparr>"
  let ?relative = "\<lparr>Scheme = [], Opaque = [], Host = [], Path = ''c.pdf'',
          ForceQuery = False, RawQuery = [], Fragment = []\<rparr>"
  have r1: "(case url_Parse ref_urllib ?base of
               Inl err \<Rightarrow> Inl err
             | Inr base \<Rightarrow> Inr (url_String ref_urllib (ResolveReference ref_urllib base ?net_path)))
            = Inr ''https://y.org/c.pdf''"
    by code_simp
  have r2: "(case url_Parse ref_urllib ?base of
               Inl err \<Rightarrow> Inl err
             | Inr base \<Rightarrow> Inr (url_String ref_urllib (ResolveReference ref_urllib base ?fragment)))
            = Inr ''https://x.org/a/b?q=1#top''"
    by code_simp
  have r3: "(case url_Parse ref_urllib '':bad'' of
               Inl err \<Rightarrow> Inl err
             | Inr base \<Rightarrow> Inr (url_String ref_urllib (ResolveReference ref_urllib base ?relative)))
            = Inl (LibError ''missing protocol scheme'')"
    by code_simp
  have 1: "getFullUrl ref_urllib ?base ''//y.org/c.pdf'' = Inr ''https://y.org/c.pdf''"
    using getFullUrl_relative_resolution [of ref_urllib "''//y.org/c.pdf''" ?base]
      parse_net_path r1 by simp
  have 2: "getFullUrl ref_urllib ?base ''#top'' = Inr ''https://x.org/a/b?q=1#top''"
    using getFullUrl_relative_resolution [of ref_urllib "''#top''" ?base]
      parse_fragment r2 by simp
  have 3: "getFullUrl ref_urllib '':bad'' ''c.pdf'' = Inl (LibError ''missing protocol scheme'')"
    using getFullUrl_relative_resolution [of ref_urllib "''c.pdf''" "'':bad''"]
      parse_relative r3 by simp
  have 4: "getFullUrl ref_urllib ''https://x.org/a/b'' '':bad'' =
             Inl (LibError ''missing protocol scheme'')"
    using getFullUrl_relative_resolution [of ref_urllib "'':bad''" "''https://x.org/a/b''"]
      parse_bad by simp
  from 1 2 3 4 show ?thesis by blast
qed

section \<open>The cardinality policy\<close>






section \<open>The gated domain\<close>

text \<open>
  Claim C2. Let the page have exactly one match, whose resolved URL contains
  \<open>www.ieee-security.org\<close>. If the page has an anchor whose text matches
  \<open>All <N> versions\<close>, the link of the first such anchor resolves, and the page behind it
  is fetched and parsed and has exactly one anchor matched by \<open>urlMatcher\<close> (an href ending
  in \<open>.pdf\<close>, a parent of class \<open>gs_or_ggsm\<close>, no \<open>www.ieee-security.org\<close> anywhere in
  the href as written), then the resolver returns the resolved URL of that anchor and no
  error, after two requests, provided that URL does not contain \<open>www.ieee-security.org\<close>
  either; this is so whenever the href is an absolute URL, which is then returned as it
  is. If the page has no anchor whose text matches, the process ends through
  \<open>log.Fatalf\<close>.
\<close>

theorem getDownloadUrl_gated_two_hop:
  assumes "http_Get nt pageUrl = Inr resp" and "html_Parse nt resp = Inr root"
    and "length (scrape_FindAll ([], root) matcher) = 1"
    and "getFullUrl lib pageUrl (scrape_Attr (scrape_FindAll ([], root) matcher ! 0) ''href'') =
           Inr fileUrl"
    and "Contains fileUrl ''www.ieee-security.org''"
  shows
    "(\<forall>versionLink versionUrl resp2 root2 pdfUrl.
        scrape_Find ([], root) allVersionsMatcher = Some versionLink \<and>
        getFullUrl lib pageUrl (scrape_Attr versionLink ''href'') = Inr versionUrl \<and>
        http_Get nt versionUrl = Inr resp2 \<and> html_Parse nt resp2 = Inr root2 \<and>
        length (scrape_FindAll ([], root2) urlMatcher) = 1 \<and>
        getFullUrl lib versionUrl (scrape_Attr (scrape_FindAll ([], root2) urlMatcher ! 0) ''href'') =
          Inr pdfUrl \<and>
        \<not> Contains pdfUrl ''www.ieee-security.org'' \<longrightarrow>
        getDownloadUrl_gated (Suc (Suc fuel)) lib nt w pageUrl matcher =
          Some (Return (pdfUrl, None), sent (sent w pageUrl) versionUrl))
     \<and> (\<forall>versionLink versionUrl resp2 root2 link.
        scrape_Find ([], root) allVersionsMatcher = Some versionLink \<and>
        getFullUrl lib pageUrl (scrape_Attr versionLink ''href'') = Inr versionUrl \<and>
        http_Get nt versionUrl = Inr resp2 \<and> html_Parse nt resp2 = Inr root2 \<and>
        length (scrape_FindAll ([], root2) urlMatcher) = 1 \<and>
        url_Parse lib (scrape_Attr (scrape_FindAll ([], root2) urlMatcher ! 0) ''href'') = Inr link \<and>
        Scheme link \<noteq> [] \<and> Host link \<noteq> [] \<longrightarrow>
        getDownloadUrl_gated (Suc (Suc fuel)) lib nt w pageUrl matcher =
          Some (Return (scrape_Attr (scrape_FindAll ([], root2) urlMatcher ! 0) ''href'', None),
                sent (sent w pageUrl) versionUrl))
     \<and> (scrape_Find ([], root) allVersionsMatcher = None \<longrightarrow>
          getDownloadUrl_gated (Suc fuel) lib nt w pageUrl matcher =
            Some (LogFatal (''no version link found for: '' @ fileUrl), sent w pageUrl))"
proof (intro conjI allI impI)
  fix versionLink versionUrl resp2 root2 pdfUrl
  assume h: "scrape_Find ([], root) allVersionsMatcher = Some versionLink \<and>
        getFullUrl lib pageUrl (scrape_Attr versionLink ''href'') = Inr versionUrl \<and>
        http_Get nt versionUrl = Inr resp2 \<and> html_Parse nt resp2 = Inr root2 \<and>
        length (scrape_FindAll ([], root2) urlMatcher) = 1 \<and>
        getFullUrl lib versionUrl (scrape_Attr (scrape_FindAll ([], root2) urlMatcher ! 0) ''href'') =
          Inr pdfUrl \<and>
        \<not> Contains pdfUrl ''www.ieee-security.org''"
  have "getDownloadUrl_gated (Suc (Suc fuel)) lib nt w pageUrl matcher =
          getDownloadUrl_gated (Suc fuel) lib nt (sent w pageUrl) versionUrl urlMatcher"
    using assms h by (intro getDownloadUrl_gated_second_hop) blast+
  also have "\<dots> = Some (Return (pdfUrl, None), sent (sent w pageUrl) versionUrl)"
    using h by (intro getDownloadUrl_gated_plain) blast+
  finally show "getDownloadUrl_gated (Suc (Suc fuel)) lib nt w pageUrl matcher =
          Some (Return (pdfUrl, None), sent (sent w pageUrl) versionUrl)" .
next
  fix versionLink versionUrl resp2 root2 link
  let ?href = "scrape_Attr (scrape_FindAll ([], root2) urlMatcher ! 0) ''href''"
  assume h: "scrape_Find ([], root) allVersionsMatcher = Some versionLink \<and>
        getFullUrl lib pageUrl (scrape_Attr versionLink ''href'') = Inr versionUrl \<and>
        http_Get nt versionUrl = Inr resp2 \<and> html_Parse nt resp2 = Inr root2 \<and>
        length (scrape_FindAll ([], root2) urlMatcher) = 1 \<and>
        url_Parse lib ?href = Inr link \<and> Scheme link \<noteq> [] \<and> Host link \<noteq> []"
  have "getDownloadUrl_gated (Suc (Suc fuel)) lib nt w pageUrl matcher =
          getDownloadUrl_gated (Suc fuel) lib nt (sent w pageUrl) versionUrl urlMatcher"
    using assms h by (intro getDownloadUrl_gated_second_hop) blast+
  also have "\<dots> = Some (Return (?href, None), sent (sent w pageUrl) versionUrl)"
    using h by (intro getDownloadUrl_gated_absolute_link) blast+
  finally show "getDownloadUrl_gated (Suc (Suc fuel)) lib nt w pageUrl matcher =
          Some (Return (?href, None), sent (sent w pageUrl) versionUrl)" .
next
  assume "scrape_Find ([], root) allVersionsMatcher = None"
  with assms show "getDownloadUrl_gated (Suc fuel) lib nt w pageUrl matcher =
            Some (LogFatal (''no version link found for: '' @ fileUrl), sent w pageUrl)"
    by (cases "scrape_FindAll ([], root) matcher") (simp_all add: Let_def)
qed

theorem getDownloadUrl_gated_two_hop_witness:
  "getDownloadUrl_gated (Suc (Suc 0)) ref_urllib example_net empty_world
     ''https://scholar.example/scholar?q=T1'' scholarMatcher =
     Some (Return (''https://mirror.example/papers/1.pdf'', None),
           sent (sent empty_world ''https://scholar.example/scholar?q=T1'')
             ''https://scholar.example/scholar?cluster=7'')
   \<and> scrape_Attr (scrape_FindAll ([], page_versions) urlMatcher ! 0) ''href'' =
       ''https://mirror.example/papers/1.pdf''
   \<and> getDownloadUrl_gated (Suc (Suc 0)) ref_urllib example_net empty_world
     ''https://scholar.example/scholar?q=T5'' scholarMatcher =
     Some (Return (''https://mirror.example/papers/1.pdf'', None),
           sent (sent empty_world ''https://scholar.example/scholar?q=T5'')
             ''https://scholar.example/scholar?cluster=7'')
   \<and> getDownloadUrl_gated (Suc 0) ref_urllib example_net empty_world
     ''https://scholar.example/scholar?q=T2'' scholarMatcher =
     Some (LogFatal (''no version link found for: '' @
                     ''https://www.ieee-security.org/TC/SP2017/papers/2.pdf''),
           sent empty_world ''https://scholar.example/scholar?q=T2'')"
proof -
  let ?T1 = "''https://scholar.example/scholar?q=T1''"
  let ?T2 = "''https://scholar.example/scholar?q=T2''"
  let ?T5 = "''https://scholar.example/scholar?q=T5''"
  let ?V = "''https://scholar.example/scholar?cluster=7''"
  let ?M = "''https://mirror.example/papers/1.pdf''"
  have n1: "length (scrape_FindAll ([], page_gated) scholarMatcher) = 1" by code_simp
  have u1: "getFullUrl ref_urllib ?T1
              (scrape_Attr (scrape_FindAll ([], page_gated) scholarMatcher ! 0) ''href'') =
            Inr ''https://www.ieee-security.org/TC/SP2017/papers/1.pdf''" by code_simp
  have g1: "Contains ''https://www.ieee-security.org/TC/SP2017/papers/1.pdf'' ''www.ieee-security.org''"
    by code_simp
  have "scrape_Find ([], page_gated) allVersionsMatcher \<noteq> None" by code_simp
  then obtain v where v: "scrape_Find ([], page_gated) allVersionsMatcher = Some v" by blast
  have "getFullUrl ref_urllib ?T1
          (scrape_Attr (the (scrape_Find ([], page_gated) allVersionsMatcher)) ''href'') = Inr ?V"
    by code_simp
  with v have uv: "getFullUrl ref_urllib ?T1 (scrape_Attr v ''href'') = Inr ?V" by simp
  have nv: "length (scrape_FindAll ([], page_versions) urlMatcher) = 1" by code_simp
  have hv: "scrape_Attr (scrape_FindAll ([], page_versions) urlMatcher ! 0) ''href'' = ?M"
    by code_simp
  have up: "getFullUrl ref_urllib ?V
              (scrape_Attr (scrape_FindAll ([], page_versions) urlMatcher ! 0) ''href'') = Inr ?M"
    by code_simp
  have gp: "\<not> Contains ?M ''www.ieee-security.org''" by code_simp
  have pm: "url_Parse ref_urllib
              (scrape_Attr (scrape_FindAll ([], page_versions) urlMatcher ! 0) ''href'') =
            Inr \<lparr>Scheme = ''https'', Opaque = [], Host = ''mirror.example'',
                 Path = ''/papers/1.pdf'', ForceQuery = False, RawQuery = [], Fragment = []\<rparr>"
    unfolding hv by (rule parse_mirror)
  have n5: "length (scrape_FindAll ([], page_gated_nbsp) scholarMatcher) = 1" by code_simp
  have u5: "getFullUrl ref_urllib ?T5
              (scrape_Attr (scrape_FindAll ([], page_gated_nbsp) scholarMatcher ! 0) ''href'') =
            Inr ''https://www.ieee-security.org/TC/SP2017/papers/4.pdf''" by code_simp
  have g5: "Contains ''https://www.ieee-security.org/TC/SP2017/papers/4.pdf'' ''www.ieee-security.org''"
    by code_simp
  have "scrape_Find ([], page_gated_nbsp) allVersionsMatcher \<noteq> None" by code_simp
  then obtain v5 where v5: "scrape_Find ([], page_gated_nbsp) allVersionsMatcher = Some v5"
    by blast
  have "getFullUrl ref_urllib ?T5
          (scrape_Attr (the (scrape_Find ([], page_gated_nbsp) allVersionsMatcher)) ''href'') =
        Inr ?V"
    by code_simp
  with v5 have uv5: "getFullUrl ref_urllib ?T5 (scrape_Attr v5 ''href'') = Inr ?V" by simp
  have n2: "length (scrape_FindAll ([], page_gated_alone) scholarMatcher) = 1" by code_simp
  have u2: "getFullUrl ref_urllib ?T2
              (scrape_Attr (scrape_FindAll ([], page_gated_alone) scholarMatcher ! 0) ''href'') =
            Inr ''https://www.ieee-security.org/TC/SP2017/papers/2.pdf''" by code_simp
  have g2: "Contains ''https://www.ieee-security.org/TC/SP2017/papers/2.pdf'' ''www.ieee-security.org''"
    by code_simp
  have f2: "scrape_Find ([], page_gated_alone) allVersionsMatcher = None" by code_simp
  note t1 = getDownloadUrl_gated_two_hop [OF get_gated parse_gated n1 u1 g1,
      where w = empty_world and fuel = 0]
  note t5 = getDownloadUrl_gated_two_hop [OF get_gated_nbsp parse_gated_nbsp n5 u5 g5,
      where w = empty_world and fuel = 0]
  note t2 = getDownloadUrl_gated_two_hop [OF get_gated_alone parse_gated_alone n2 u2 g2,
      where w = empty_world and fuel = 0]
  from t1 [THEN conjunct1] v uv get_versions parse_versions nv up gp
  have 1: "getDownloadUrl_gated (Suc (Suc 0)) ref_urllib example_net empty_world ?T1 scholarMatcher =
     Some (Return (?M, None), sent (sent empty_world ?T1) ?V)"
    by blast
  from t1 [THEN conjunct2, THEN conjunct1, rule_format,
      OF conjI [OF v conjI [OF uv conjI [OF get_versions conjI [OF parse_versions
        conjI [OF nv conjI [OF pm]]]]]]]
  have 3: "getDownloadUrl_gated (Suc (Suc 0)) ref_urllib example_net empty_world ?T1 scholarMatcher =
     Some (Return (scrape_Attr (scrape_FindAll ([], page_versions) urlMatcher ! 0) ''href'', None),
           sent (sent empty_world ?T1) ?V)"
    by simp
  from t5 [THEN conjunct1] v5 uv5 get_versions parse_versions nv up gp
  have 5: "getDownloadUrl_gated (Suc (Suc 0)) ref_urllib example_net empty_world ?T5 scholarMatcher =
     Some (Return (?M, None), sent (sent empty_world ?T5) ?V)"
    by blast
  from t2 [THEN conjunct2, THEN conjunct2] f2
  have 2: "getDownloadUrl_gated (Suc 0) ref_urllib example_net empty_world ?T2 scholarMatcher =
     Some (LogFatal (''no version link found for: '' @
                     ''https://www.ieee-security.org/TC/SP2017/papers/2.pdf''),
           sent empty_world ?T2)"
    by blast
  from 1 3 hv 5 2 show ?thesis by blast
qed

text \<open>
  The claim takes the one anchor of the second page to be excluded when it points back at
  the gated domain. The program excludes it when the characters \<open>www.ieee-security.org\<close>
  occur anywhere in its href. The search T6 of the example leads to a list of versions
  with exactly one anchor to a PDF under a parent of class \<open>gs_or_ggsm\<close>; it points at the
  host \<open>web.archive.org\<close>, with the address of the original in its path. The resolver
  does not return its URL: it finds no link on that page and returns the
  missing-download-link error, however many nested calls are allowed.
\<close>

theorem getDownloadUrl_gated_two_hop_counterexample:
  "length (scrape_FindAll ([], page_gated_archive) scholarMatcher) = 1
   \<and> getFullUrl ref_urllib ''https://scholar.example/scholar?q=T6''
        (scrape_Attr (scrape_FindAll ([], page_gated_archive) scholarMatcher ! 0) ''href'') =
      Inr ''https://www.ieee-security.org/TC/SP2017/papers/5.pdf''
   \<and> allVersionsMatcher (the (scrape_Find ([], page_gated_archive) allVersionsMatcher))
   \<and> getFullUrl ref_urllib ''https://scholar.example/scholar?q=T6''
        (scrape_Attr (the (scrape_Find ([], page_gated_archive) allVersionsMatcher)) ''href'') =
      Inr ''https://scholar.example/scholar?cluster=8''
   \<and> http_Get example_net ''https://scholar.example/scholar?cluster=8'' =
      Inr \<lparr>Body = ''archive'', BodyErr = None\<rparr>
   \<and> html_Parse example_net \<lparr>Body = ''archive'', BodyErr = None\<rparr> = Inr page_archive
   \<and> length (scrape_FindAll ([], page_archive) scholarMatcher) = 1
   \<and> ref_Parse (scrape_Attr (scrape_FindAll ([], page_archive) scholarMatcher ! 0) ''href'') =
      Inr \<lparr>Scheme = ''https'', Opaque = [], Host = ''web.archive.org'',
           Path = ''/web/2017/https://www.ieee-security.org/TC/SP2017/papers/5.pdf'',
           ForceQuery = False, RawQuery = [], Fragment = []\<rparr>
   \<and> (\<forall>fuel. getDownloadUrl_gated (Suc (Suc fuel)) ref_urllib example_net empty_world
        ''https://scholar.example/scholar?q=T6'' scholarMatcher =
      Some (Return ([], Some MissingDownloadLinkErr),
            sent (sent empty_world ''https://scholar.example/scholar?q=T6'')
              ''https://scholar.example/scholar?cluster=8''))"
proof -
  let ?T6 = "''https://scholar.example/scholar?q=T6''"
  let ?V = "''https://scholar.example/scholar?cluster=8''"
  have n: "length (scrape_FindAll ([], page_gated_archive) scholarMatcher) = 1" by code_simp
  have u: "getFullUrl ref_urllib ?T6
             (scrape_Attr (scrape_FindAll ([], page_gated_archive) scholarMatcher ! 0) ''href'') =
           Inr ''https://www.ieee-security.org/TC/SP2017/papers/5.pdf''" by code_simp
  have g: "Contains ''https://www.ieee-security.org/TC/SP2017/papers/5.pdf'' ''www.ieee-security.org''"
    by code_simp
  have m: "allVersionsMatcher (the (scrape_Find ([], page_gated_archive) allVersionsMatcher))"
    by code_simp
  have "scrape_Find ([], page_gated_archive) allVersionsMatcher \<noteq> None" by code_simp
  then obtain v where v: "scrape_Find ([], page_gated_archive) allVersionsMatcher = Some v"
    by blast
  have uv': "getFullUrl ref_urllib ?T6
          (scrape_Attr (the (scrape_Find ([], page_gated_archive) allVersionsMatcher)) ''href'') =
        Inr ?V"
    by code_simp
  with v have uv: "getFullUrl ref_urllib ?T6 (scrape_Attr v ''href'') = Inr ?V" by simp
  have one: "length (scrape_FindAll ([], page_archive) scholarMatcher) = 1" by code_simp
  have host: "ref_Parse (scrape_Attr (scrape_FindAll ([], page_archive) scholarMatcher ! 0) ''href'') =
      Inr \<lparr>Scheme = ''https'', Opaque = [], Host = ''web.archive.org'',
           Path = ''/web/2017/https://www.ieee-security.org/TC/SP2017/papers/5.pdf'',
           ForceQuery = False, RawQuery = [], Fragment = []\<rparr>"
    by code_simp
  have none: "scrape_FindAll ([], page_archive) urlMatcher = []" by code_simp
  have run: "getDownloadUrl_gated (Suc (Suc fuel)) ref_urllib example_net empty_world ?T6
               scholarMatcher =
             Some (Return ([], Some MissingDownloadLinkErr), sent (sent empty_world ?T6) ?V)"
    for fuel
    unfolding getDownloadUrl_gated_second_hop [OF get_gated_archive parse_gated_archive n u g v uv]
    by (rule getDownloadUrl_gated_no_link [OF get_archive parse_archive none])
  from n u m uv' get_archive parse_archive one host run show ?thesis by blast
qed

text \<open>
  Claim C6. The recursion is not bounded for every input. \<open>urlMatcher\<close> tests the href as
  written, while the special case tests the resolved URL: a relative href on a page
  served by the gated domain passes the matcher and resolves to a URL of the gated
  domain. On the page \<open>versions.html\<close> of the example, whose list of all versions is the
  page itself, no number of nested calls suffices; the same holds when the resolver is
  started on the search T4, which leads there.
\<close>

theorem getDownloadUrl_gated_diverges:
  "(\<forall>fuel w. getDownloadUrl_gated fuel ref_urllib example_net w
      ''https://www.ieee-security.org/TC/SP2017/versions.html'' urlMatcher = None)
   \<and> (\<forall>fuel w. getDownloadUrl_gated fuel ref_urllib example_net w
      ''https://scholar.example/scholar?q=T4'' scholarMatcher = None)
   \<and> urlMatcher (hd (scrape_FindAll ([], page_loop) urlMatcher))
   \<and> scrape_Attr (hd (scrape_FindAll ([], page_loop) urlMatcher)) ''href'' = ''papers/1.pdf''"
proof (intro conjI allI)
  fix fuel w
  show "getDownloadUrl_gated fuel ref_urllib example_net w
      ''https://www.ieee-security.org/TC/SP2017/versions.html'' urlMatcher = None"
    by (rule loop_forever)
  show "getDownloadUrl_gated fuel ref_urllib example_net w
      ''https://scholar.example/scholar?q=T4'' scholarMatcher = None"
    by (cases fuel) (simp_all only: getDownloadUrl_gated.simps(1) loop_entry loop_forever)
next
  show "urlMatcher (hd (scrape_FindAll ([], page_loop) urlMatcher))" by code_simp
  show "scrape_Attr (hd (scrape_FindAll ([], page_loop) urlMatcher)) ''href'' = ''papers/1.pdf''"
    by code_simp
qed

section \<open>The file downloader\<close>



text \<open>
  Claim C9. Whenever the error of \<open>os.Stat\<close> is not a does-not-exist error, also when it
  is \<open>nil\<close>, \<open>downloadFile\<close> returns \<open>nil\<close> and leaves the state as it was: no file is
  created and no request is sent. A failure of \<open>os.Stat\<close> for another reason is such a
  case, whether or not a file is there.
\<close>

theorem downloadFile_skips_unless_not_exist:
  "(\<not> os_IsNotExist (os_Stat env w filepath) \<longrightarrow> downloadFile env nt w url filepath = (None, w))
   \<and> (\<forall>msg. stat_fault env filepath = Some msg \<longrightarrow>
         os_Stat env w filepath = Some (LibError msg) \<and>
         downloadFile env nt w url filepath = (None, w))"
  by (simp add: downloadFile_def os_Stat_def)

theorem downloadFile_skips_unless_not_exist_witness:
  "files empty_world ''/root/papers/paper1.pdf'' = None
   \<and> os_Stat denied empty_world ''/root/papers/paper1.pdf'' = Some (LibError ''permission denied'')
   \<and> downloadFile denied example_net empty_world
       ''http://conf.example/2017/paper1.pdf'' ''/root/papers/paper1.pdf'' = (None, empty_world)
   \<and> \<not> os_IsNotExist (os_Stat no_faults empty_world ''papers'')
   \<and> downloadFile no_faults example_net empty_world
       ''http://conf.example/2017/paper1.pdf'' ''papers'' = (None, empty_world)"
proof -
  have f: "files empty_world ''/root/papers/paper1.pdf'' = None" by (simp add: empty_world_def)
  have d: "stat_fault denied ''/root/papers/paper1.pdf'' = Some ''permission denied''"
    by (simp add: denied_def)
  have p: "\<not> os_IsNotExist (os_Stat no_faults empty_world ''papers'')"
    by (simp add: os_Stat_def no_faults_def empty_world_def)
  note t1 = downloadFile_skips_unless_not_exist [of denied empty_world "''/root/papers/paper1.pdf''"
      example_net "''http://conf.example/2017/paper1.pdf''"]
  note t2 = downloadFile_skips_unless_not_exist [of no_faults empty_world "''papers''"
      example_net "''http://conf.example/2017/paper1.pdf''"]
  from t1 d t2 p f show ?thesis by blast
qed



end
